theory Spec2Isabelle
  imports Main "HOL-Library.AList"
begin

section \<open>Values, exceptions and frames\<close>

text \<open>
  The dashboard script \<^verbatim>\<open>app.py\<close> is a pipeline of pandas calls. A Python exception is a
  value: its class name and the text \<^verbatim>\<open>str(e)\<close> gives. A computation that may raise
  returns \<open>py_exn + 'a\<close>, with \<open>Inl\<close> the exception.
\<close>

datatype py_exn = PyExn (exn_class: string) (exn_text: string)

definition bindE :: "'e + 'a \<Rightarrow> ('a \<Rightarrow> 'e + 'b) \<Rightarrow> 'e + 'b" where
  "bindE m f = (case m of Inl e \<Rightarrow> Inl e | Inr x \<Rightarrow> f x)"

fun traverse :: "('a \<Rightarrow> 'e + 'b) \<Rightarrow> 'a list \<Rightarrow> 'e + 'b list" where
  "traverse f [] = Inr []"
| "traverse f (x # xs) =
     (case f x of
        Inl e \<Rightarrow> Inl e
      | Inr y \<Rightarrow> (case traverse f xs of Inl e \<Rightarrow> Inl e | Inr ys \<Rightarrow> Inr (y # ys)))"

text \<open>
  \<^verbatim>\<open>sep.join(xs)\<close>, and \<^verbatim>\<open>repr\<close> of a name that holds no quote and nothing to escape, which
  is how the text of a \<^verbatim>\<open>KeyError\<close> shows its key.
\<close>

fun join :: "string \<Rightarrow> string list \<Rightarrow> string" where
  "join sep [] = []"
| "join sep [x] = x"
| "join sep (x # y # ys) = x @ sep @ join sep (y # ys)"

definition py_repr :: "string \<Rightarrow> string" where
  "py_repr s = [CHR 0x27] @ s @ [CHR 0x27]"

text \<open>
  A cell of a frame: \<open>NaN\<close> stands for every missing value (NaN, None, NaT). A float is
  a value of the type parameter \<open>'n\<close>: what a float is, and how text is parsed into one,
  belongs to the library and is a parameter below. A timestamp in UTC is a day number
  and the nanoseconds into that day; a calendar date is the day number.
\<close>

datatype 'n cell =
    NaN
  | Str string
  | Num 'n
  | IntV int
  | Timestamp int nat
  | Date int
  | StrList "string list"

type_synonym 'n row = "(string \<times> 'n cell) list"

record 'n dataframe =
  columns :: "string list"
  rows :: "'n row list"

definition cell_of :: "'n row \<Rightarrow> string \<Rightarrow> 'n cell" where
  "cell_of r c = (case map_of r c of None \<Rightarrow> NaN | Some v \<Rightarrow> v)"

definition isna :: "'n cell \<Rightarrow> bool" where
  "isna v = (v = NaN)"

text \<open>\<^verbatim>\<open>df[c]\<close>: the column, or KeyError when the frame has no such column.\<close>

definition getitem :: "'n dataframe \<Rightarrow> string \<Rightarrow> py_exn + 'n cell list" where
  "getitem df c =
     (if c \<in> set (columns df) then Inr (map (\<lambda>r. cell_of r c) (rows df))
      else Inl (PyExn ''KeyError'' (py_repr c)))"

text \<open>\<^verbatim>\<open>df[c] = values\<close>: replaces the column, or appends it as the last one.\<close>

definition setitem :: "'n dataframe \<Rightarrow> string \<Rightarrow> 'n cell list \<Rightarrow> py_exn + 'n dataframe" where
  "setitem df c vs =
     (if length vs \<noteq> length (rows df)
      then Inl (PyExn ''ValueError'' ''Length of values does not match length of index'')
      else Inr (df\<lparr>columns := (if c \<in> set (columns df) then columns df else columns df @ [c]),
                   rows := map (\<lambda>(r, v). AList.update c v r) (zip (rows df) vs)\<rparr>))"

text \<open>
  \<^verbatim>\<open>df.dropna(subset=cs)\<close>: the rows with no missing value in the columns \<open>cs\<close>, or
  KeyError with the list of the columns the frame does not have.
\<close>

definition dropna :: "string list \<Rightarrow> 'n dataframe \<Rightarrow> py_exn + 'n dataframe" where
  "dropna cs df =
     (case filter (\<lambda>c. c \<notin> set (columns df)) cs of
        [] \<Rightarrow> Inr (df\<lparr>rows := filter (\<lambda>r. list_all (\<lambda>c. \<not> isna (cell_of r c)) cs) (rows df)\<rparr>)
      | c # missing \<Rightarrow>
          Inl (PyExn ''KeyError'' (''['' @ join '', '' (map py_repr (c # missing)) @ '']'')))"

section \<open>Python's \<^verbatim>\<open>str\<close> of an integer\<close>

definition digit_char :: "nat \<Rightarrow> char" where
  "digit_char d = ''0123456789'' ! d"

fun str_nat :: "nat \<Rightarrow> string" where
  "str_nat n = (if n < 10 then [digit_char n] else str_nat (n div 10) @ [digit_char (n mod 10)])"

declare str_nat.simps [simp del]

definition str_int :: "int \<Rightarrow> string" where
  "str_int i = (if i < 0 then CHR ''-'' # str_nat (nat (- i)) else str_nat (nat i))"

text \<open>\<^verbatim>\<open>s.split(sep)\<close> for a one-character separator: never an empty list.\<close>

fun split_on :: "char \<Rightarrow> string \<Rightarrow> string list" where
  "split_on sep [] = [[]]"
| "split_on sep (x # xs) =
     (if x = sep then [] # split_on sep xs
      else (case split_on sep xs of [] \<Rightarrow> [[x]] | w # ws \<Rightarrow> (x # w) # ws))"

text \<open>
  \<^verbatim>\<open>s.strip()\<close> on text that is ASCII: the white space is tab to carriage return, the
  separators 0x1C to 0x1F, and the blank. What \<^verbatim>\<open>strip\<close> does on every text, with the
  white space of Unicode, is the library's \<open>py_strip\<close> below.
\<close>

definition is_space :: "char \<Rightarrow> bool" where
  "is_space c \<longleftrightarrow> c \<in> set [CHR 0x09, CHR 0x0A, CHR 0x0B, CHR 0x0C, CHR 0x0D,
                              CHR 0x1C, CHR 0x1D, CHR 0x1E, CHR 0x1F, CHR 0x20]"

definition ascii_strip :: "string \<Rightarrow> string" where
  "ascii_strip s = rev (dropWhile is_space (rev (dropWhile is_space s)))"

text \<open>\<^verbatim>\<open>content.replace('\r\n', '\n')\<close>, left to right.\<close>

fun replace_crlf :: "string \<Rightarrow> string" where
  "replace_crlf (a # b # xs) =
     (if a = CHR 0x0D \<and> b = CHR 0x0A then CHR 0x0A # replace_crlf xs
      else a # replace_crlf (b # xs))"
| "replace_crlf xs = xs"

text \<open>Removing every byte order mark (U+FEFF, three bytes in UTF-8) from a name.\<close>

definition bom :: string where
  "bom = [CHR 0xEF, CHR 0xBB, CHR 0xBF]"

fun remove_bom :: "string \<Rightarrow> string" where
  "remove_bom (a # b # c # xs) =
     (if [a, b, c] = bom then remove_bom xs else a # remove_bom (b # c # xs))"
| "remove_bom xs = xs"

definition decimal_digits :: "char set" where
  "decimal_digits = set ''0123456789''"

section \<open>The library\<close>

text \<open>
  The parsers of pandas are not part of the repository. They are parameters of the
  model: every theorem holds for whatever they do. With \<^verbatim>\<open>errors='coerce'\<close> a parser
  returns a missing value instead of raising, here \<open>None\<close>; its first argument is the
  column the cell stands in, since pandas may choose a format from the whole column.
\<close>

record 'n pandas =
  py_decode :: "string \<Rightarrow> string"
  pd_tokenize :: "string \<Rightarrow> py_exn + string list \<times> string list list"
  pd_infer :: "string list \<Rightarrow> string \<Rightarrow> 'n cell"
  pd_to_datetime :: "'n cell list \<Rightarrow> 'n cell \<Rightarrow> (int \<times> nat) option"
  pd_to_numeric :: "'n cell list \<Rightarrow> 'n cell \<Rightarrow> 'n option"
  np_astype_int :: "'n \<Rightarrow> py_exn + int"
  py_str :: "'n cell \<Rightarrow> string"
  py_strip :: "string \<Rightarrow> string"
  pd_tie_rank :: "('n cell \<times> nat) list \<Rightarrow> 'n cell \<times> nat \<Rightarrow> nat"
  pd_str_accessor :: "'n cell list \<Rightarrow> bool"
  pd_sort :: "'n cell list \<Rightarrow> 'n cell list"
  py_sorted :: "'n cell list \<Rightarrow> py_exn + 'n cell list"
  csv_quotes_cr :: bool

text \<open>
  \<^item> \<open>py_decode\<close>: \<^verbatim>\<open>bytes.decode('utf-8', errors='ignore')\<close>.
  \<^item> \<open>pd_tokenize\<close>: the tokenizer of \<^verbatim>\<open>pd.read_csv(..., on_bad_lines='skip')\<close>: the header
    and the records as field texts, the bad lines already skipped; it raises when the
    text has no columns or is not tabular.
  \<^item> \<open>pd_infer\<close>: the typed value of a field that is not a missing-value marker, given
    the texts of its column.
  \<^item> \<open>pd_to_datetime\<close>, \<open>pd_to_numeric\<close>: \<^verbatim>\<open>pd.to_datetime(..., errors='coerce', utc=True)\<close>
    and \<^verbatim>\<open>pd.to_numeric(..., errors='coerce')\<close> on one cell of a column.
  \<^item> \<open>np_astype_int\<close>: the cast of a float to an integer, which raises on a value that
    is not finite.
  \<^item> \<open>py_str\<close>: \<^verbatim>\<open>str\<close> of a value that is neither text nor an integer.
  \<^item> \<open>py_strip\<close>: \<^verbatim>\<open>str.strip()\<close>.
  \<^item> \<open>pd_tie_rank\<close>: the place pandas gives an entry of a series of counts among the
    entries of the same count. It comes from the sorting algorithm pandas uses, which
    differs between versions; entries of one rank keep the order they have.
  \<^item> \<open>pd_str_accessor\<close>: whether \<^verbatim>\<open>.str\<close> accepts the column (a matter of its dtype).
  \<^item> \<open>pd_sort\<close>: the order in which \<^verbatim>\<open>Series.mode\<close> returns its values.
  \<^item> \<open>py_sorted\<close>: \<^verbatim>\<open>sorted(...)\<close>, which raises on values that do not compare.
  \<^item> \<open>csv_quotes_cr\<close>: whether the \<^verbatim>\<open>csv\<close> writer quotes a field for a carriage return
    alone.
\<close>

definition to_datetime :: "'n pandas \<Rightarrow> 'n cell list \<Rightarrow> 'n cell list" where
  "to_datetime lib col =
     map (\<lambda>v. case pd_to_datetime lib col v of None \<Rightarrow> NaN | Some (d, t) \<Rightarrow> Timestamp d t) col"

definition to_numeric :: "'n pandas \<Rightarrow> 'n cell list \<Rightarrow> 'n cell list" where
  "to_numeric lib col =
     map (\<lambda>v. case pd_to_numeric lib col v of None \<Rightarrow> NaN | Some x \<Rightarrow> Num x) col"

text \<open>\<^verbatim>\<open>.dt.date\<close>: the accessor exists on a datetime column only.\<close>

definition dt_date :: "'n cell list \<Rightarrow> py_exn + 'n cell list" where
  "dt_date col =
     traverse (\<lambda>v. case v of
                 Timestamp d t \<Rightarrow> Inr (Date d)
               | NaN \<Rightarrow> Inr NaN
               | _ \<Rightarrow> Inl (PyExn ''AttributeError'' ''Can only use .dt accessor with datetimelike values'')) col"

text \<open>\<^verbatim>\<open>.astype(int)\<close>: a missing or non-finite value raises.\<close>

definition astype_int :: "'n pandas \<Rightarrow> 'n cell list \<Rightarrow> py_exn + 'n cell list" where
  "astype_int lib col =
     traverse (\<lambda>v. case v of
                 Num x \<Rightarrow> (case np_astype_int lib x of Inl e \<Rightarrow> Inl e | Inr i \<Rightarrow> Inr (IntV i))
               | IntV i \<Rightarrow> Inr (IntV i)
               | NaN \<Rightarrow> Inl (PyExn ''IntCastingNaNError'' ''Cannot convert non-finite values (NA or inf) to integer'')
               | _ \<Rightarrow> Inl (PyExn ''TypeError'' ''int() argument must be a string, a bytes-like object or a real number'')) col"

definition astype_str :: "'n pandas \<Rightarrow> 'n cell list \<Rightarrow> 'n cell list" where
  "astype_str lib col =
     map (\<lambda>v. case v of IntV i \<Rightarrow> Str (str_int i) | Str s \<Rightarrow> Str s | _ \<Rightarrow> Str (py_str lib v)) col"

section \<open>Normalization: \<^verbatim>\<open>preprocess_data\<close>\<close>

text \<open>
  Lines 14 to 23, the body; the decorator of line 13 follows below. Columns carry no
  dtype here; a cell is converted on its own, so the promotion of a whole column from
  integers to floats is not modelled.

  The function changes the frame it is given, statement by statement, and returns that
  same frame. A statement either raises and leaves the frame as it was, or yields the
  frame as changed; \<open>exec\<close> runs statements until one raises.
\<close>

type_synonym 'n stmt = "'n dataframe \<Rightarrow> py_exn + 'n dataframe"

fun exec :: "'n stmt list \<Rightarrow> 'n dataframe \<Rightarrow> py_exn option \<times> 'n dataframe" where
  "exec [] df = (None, df)"
| "exec (s # ss) df = (case s df of Inl e \<Rightarrow> (Some e, df) | Inr df' \<Rightarrow> exec ss df')"

definition preprocess_stmts :: "'n pandas \<Rightarrow> 'n stmt list" where
  "preprocess_stmts lib =
     [\<lambda>df. bindE (getitem df ''Created At'') (\<lambda>c.
            setitem df ''Created At'' (to_datetime lib c)),
      \<lambda>df. dropna [''Created At''] df,
      \<lambda>df. bindE (getitem df ''Created At'') (\<lambda>c.
            bindE (dt_date c) (\<lambda>d.
            setitem df ''Registration Date'' d)),
      \<lambda>df. bindE (getitem df ''Year of Study'') (\<lambda>c.
            setitem df ''Year of Study Cleaned'' (to_numeric lib c)),
      \<lambda>df. dropna [''Year of Study Cleaned''] df,
      \<lambda>df. bindE (getitem df ''Year of Study Cleaned'') (\<lambda>c.
            bindE (astype_int lib c) (\<lambda>i.
            setitem df ''Year of Study Cleaned'' (astype_str lib i)))]"

text \<open>
  Frames are objects in a store, a list of frames with the index as address. The
  function as lines 14 to 23 write it, without its decorator, takes the address of a
  frame, updates the object there, and returns the same address.
\<close>

type_synonym 'n heap = "'n dataframe list"

definition lookup :: "'n heap \<Rightarrow> nat \<Rightarrow> 'n dataframe option" where
  "lookup h a = (if a < length h then Some (h ! a) else None)"

definition preprocess_data :: "'n pandas \<Rightarrow> nat \<Rightarrow> 'n heap \<Rightarrow> (py_exn + nat) \<times> 'n heap" where
  "preprocess_data lib a h =
     (case lookup h a of
        None \<Rightarrow> (Inl (PyExn ''ReferenceError'' ''no such object''), h)
      | Some df \<Rightarrow>
          (case exec (preprocess_stmts lib) df of
             (Some e, df') \<Rightarrow> (Inl e, h[a := df'])
           | (None, df') \<Rightarrow> (Inr a, h[a := df'])))"

text \<open>\<^verbatim>\<open>df.copy()\<close>: a new object with the same contents, at the next unused address.\<close>

definition copy :: "nat \<Rightarrow> 'n heap \<Rightarrow> (py_exn + nat) \<times> 'n heap" where
  "copy a h =
     (case lookup h a of
        None \<Rightarrow> (Inl (PyExn ''ReferenceError'' ''no such object''), h)
      | Some df \<Rightarrow> (Inr (length h), h @ [df]))"

text \<open>
  Line 13: \<^verbatim>\<open>@st.cache_data\<close>. The name \<^verbatim>\<open>preprocess_data\<close> of the script is the function
  above under this decorator. A call looks its argument up in a store of results, by a
  hash of the contents of the argument, here by the contents themselves. When a result
  is stored the body does not run: the call returns a new object holding a copy of the
  stored result, and no object changes. Otherwise the body runs on the argument, a copy
  of what it returns is stored, and the call returns what the body returned. A raised
  exception stores nothing.
\<close>

type_synonym 'n cache = "('n dataframe \<times> 'n dataframe) list"

definition preprocess_data_cached ::
  "'n pandas \<Rightarrow> nat \<Rightarrow> 'n cache \<times> 'n heap \<Rightarrow> (py_exn + nat) \<times> 'n cache \<times> 'n heap" where
  "preprocess_data_cached lib a st =
     (case st of (cache, h) \<Rightarrow>
        (case lookup h a of
           None \<Rightarrow> (Inl (PyExn ''ReferenceError'' ''no such object''), cache, h)
         | Some df \<Rightarrow>
             (case map_of cache df of
                Some result \<Rightarrow> (Inr (length h), cache, h @ [result])
              | None \<Rightarrow>
                  (case preprocess_data lib a h of
                     (Inl e, h') \<Rightarrow> (Inl e, cache, h')
                   | (Inr b, h') \<Rightarrow>
                       (case lookup h' b of
                          None \<Rightarrow> (Inr b, cache, h')
                        | Some result \<Rightarrow> (Inr b, (df, result) # cache, h'))))))"

text \<open>A store of results that holds results of the function and nothing else.\<close>

definition cache_ok :: "'n pandas \<Rightarrow> 'n cache \<Rightarrow> bool" where
  "cache_ok lib cache \<longleftrightarrow> (\<forall>(df, result) \<in> set cache. exec (preprocess_stmts lib) df = (None, result))"

section \<open>Ingestion\<close>

text \<open>
  The markers \<^verbatim>\<open>pd.read_csv\<close> reads as a missing value by default; the empty field is
  the first.
\<close>

definition na_values :: "string list" where
  "na_values = ['''', ''#N/A'', ''#N/A N/A'', ''#NA'', ''-1.#IND'', ''-1.#QNAN'', ''-NaN'', ''-nan'',
                ''1.#IND'', ''1.#QNAN'', ''<NA>'', ''N/A'', ''NA'', ''NULL'', ''NaN'', ''None'',
                ''n/a'', ''nan'', ''null'']"

definition read_field :: "'n pandas \<Rightarrow> string list \<Rightarrow> string \<Rightarrow> 'n cell" where
  "read_field lib col t = (if t \<in> set na_values then NaN else pd_infer lib col t)"

definition field_at :: "string list \<Rightarrow> nat \<Rightarrow> string" where
  "field_at fs j = (if j < length fs then fs ! j else [])"

definition read_csv :: "'n pandas \<Rightarrow> string \<Rightarrow> py_exn + 'n dataframe" where
  "read_csv lib content =
     bindE (pd_tokenize lib content) (\<lambda>(header, records).
       Inr \<lparr>columns = header,
            rows = map (\<lambda>fs.
                     map (\<lambda>j. (header ! j,
                               read_field lib (map (\<lambda>f. field_at f j) records) (field_at fs j)))
                       [0..<length header])
                     records\<rparr>)"

definition rename_columns :: "(string \<Rightarrow> string) \<Rightarrow> 'n dataframe \<Rightarrow> 'n dataframe" where
  "rename_columns f df =
     df\<lparr>columns := map f (columns df), rows := map (map (\<lambda>(c, v). (f c, v))) (rows df)\<rparr>"

text \<open>\<^verbatim>\<open>df.empty\<close>: no rows or no columns.\<close>

definition empty :: "'n dataframe \<Rightarrow> bool" where
  "empty df \<longleftrightarrow> rows df = [] \<or> columns df = []"

text \<open>
  What a run of the script ends in: a message and \<^verbatim>\<open>st.stop()\<close>, an exception no handler
  catches, or the key metrics, after which the tabs are drawn.
\<close>

datatype 'n outcome =
    StopInfo string
  | StopError string
  | StopWarning string
  | Uncaught py_exn
  | KeyMetrics nat nat "'n cell" nat

definition empty_message :: string where
  "empty_message = ''The uploaded CSV file is empty or could not be read.''"

definition cannot_read :: "py_exn \<Rightarrow> string" where
  "cannot_read e =
     [CHR 0xE2, CHR 0x9A, CHR 0xA0, CHR 0xEF, CHR 0xB8, CHR 0x8F] @
     '' Could not read the CSV file. Try re-saving it as UTF-8 format.'' @
     [CHR 0x0A, CHR 0x0A] @ ''Error details: '' @ exn_text e"

text \<open>
  Lines 42 to 55. Every exception of the \<^verbatim>\<open>try\<close> block is reported with its text.
  \<^verbatim>\<open>st.stop()\<close> raises Streamlit's stop exception, which is not an \<^verbatim>\<open>Exception\<close> and
  passes the handler. The parsed table is the only object of the store; its copy is
  normalized. The run is one that computes the normalized frame; a rerun with the same
  upload takes a frame of the same contents from the store of results.
\<close>

definition ingest :: "'n pandas \<Rightarrow> string \<Rightarrow> 'n outcome + 'n dataframe" where
  "ingest lib bytes =
     (case read_csv lib (replace_crlf (py_decode lib bytes)) of
        Inl e \<Rightarrow> Inl (StopError (cannot_read e))
      | Inr df0 \<Rightarrow>
          (let df_raw = rename_columns remove_bom df0 in
           if empty df_raw then Inl (StopError empty_message)
           else (case copy 0 [df_raw] of
                   (Inl e, h1) \<Rightarrow> Inl (StopError (cannot_read e))
                 | (Inr b, h1) \<Rightarrow>
                     (case preprocess_data lib b h1 of
                        (Inl e, h2) \<Rightarrow> Inl (StopError (cannot_read e))
                      | (Inr a, h2) \<Rightarrow>
                          (case lookup h2 a of
                             None \<Rightarrow> Inl (StopError (cannot_read (PyExn ''ReferenceError'' ''no such object'')))
                           | Some df \<Rightarrow> Inr df)))))"

section \<open>The filter engine\<close>

text \<open>A tuple unpacked into two names.\<close>

definition unpack2 :: "'a list \<Rightarrow> py_exn + 'a \<times> 'a" where
  "unpack2 xs =
     (case xs of
        [a, b] \<Rightarrow> Inr (a, b)
      | [] \<Rightarrow> Inl (PyExn ''ValueError'' ''not enough values to unpack (expected 2, got 0)'')
      | [a] \<Rightarrow> Inl (PyExn ''ValueError'' ''not enough values to unpack (expected 2, got 1)'')
      | _ \<Rightarrow> Inl (PyExn ''ValueError'' ''too many values to unpack (expected 2)''))"

definition isin :: "'n cell list \<Rightarrow> 'n cell list \<Rightarrow> bool list" where
  "isin col values = map (\<lambda>v. v \<in> set values) col"

text \<open>A column of dates compared with a date; any other cell does not compare.\<close>

definition compare_date :: "(int \<Rightarrow> int \<Rightarrow> bool) \<Rightarrow> 'n cell list \<Rightarrow> int \<Rightarrow> py_exn + bool list" where
  "compare_date rel col d =
     traverse (\<lambda>v. case v of
                 Date x \<Rightarrow> Inr (rel x d)
               | _ \<Rightarrow> Inl (PyExn ''TypeError'' ''comparison not supported with datetime.date'')) col"

definition and_mask :: "bool list \<Rightarrow> bool list \<Rightarrow> bool list" where
  "and_mask m1 m2 = map (\<lambda>(a, b). a \<and> b) (zip m1 m2)"

text \<open>\<^verbatim>\<open>df[mask]\<close>: the rows where the mask is true.\<close>

definition boolean_index :: "'n dataframe \<Rightarrow> bool list \<Rightarrow> 'n dataframe" where
  "boolean_index df m = df\<lparr>rows := map fst (filter snd (zip (rows df) m))\<rparr>"

record 'n selection =
  selected_colleges :: "'n cell list"
  selected_years :: "'n cell list"
  selected_date_range :: "int list"

text \<open>Lines 66 to 72.\<close>

definition df_filtered :: "'n dataframe \<Rightarrow> 'n selection \<Rightarrow> py_exn + 'n dataframe" where
  "df_filtered df sel =
     bindE (unpack2 (selected_date_range sel)) (\<lambda>(start_date, end_date).
     bindE (getitem df ''College Name'') (\<lambda>college.
     bindE (getitem df ''Year of Study Cleaned'') (\<lambda>year.
     bindE (getitem df ''Registration Date'') (\<lambda>date1.
     bindE (compare_date (\<ge>) date1 start_date) (\<lambda>from_start.
     bindE (getitem df ''Registration Date'') (\<lambda>date2.
     bindE (compare_date (\<le>) date2 end_date) (\<lambda>to_end.
       Inr (boolean_index df
              (and_mask (and_mask (and_mask (isin college (selected_colleges sel))
                                            (isin year (selected_years sel)))
                                  from_start)
                        to_end)))))))))"

section \<open>Aggregation views\<close>

text \<open>\<^verbatim>\<open>Series.unique()\<close>: the values in the order they first appear.\<close>

fun unique :: "'a list \<Rightarrow> 'a list" where
  "unique [] = []"
| "unique (x # xs) = x # unique (filter (\<lambda>y. y \<noteq> x) xs)"

text \<open>
  The entries of a series of counts as the library arranges entries of equal count:
  sorted by its rank, stably.
\<close>

definition tie_arranged :: "'n pandas \<Rightarrow> ('n cell \<times> nat) list \<Rightarrow> ('n cell \<times> nat) list" where
  "tie_arranged lib s = sort_key (pd_tie_rank lib s) s"

text \<open>The values of a column that are not missing, each once, with their counts.\<close>

definition counted :: "'n cell list \<Rightarrow> ('n cell \<times> nat) list" where
  "counted col = map (\<lambda>v. (v, count_list col v)) (unique (filter (\<lambda>v. \<not> isna v) col))"

text \<open>
  \<^verbatim>\<open>Series.value_counts()\<close>: the values that are not missing with their counts, largest
  count first, equal counts as the library arranges them.
\<close>

definition value_counts :: "'n pandas \<Rightarrow> 'n cell list \<Rightarrow> ('n cell \<times> nat) list" where
  "value_counts lib col = sort_key (\<lambda>(v, n). - int n) (tie_arranged lib (counted col))"

text \<open>
  \<^verbatim>\<open>Series.nlargest(n)\<close>: the first \<open>n\<close> entries by count, largest first, equal counts
  as the library arranges them.
\<close>

definition nlargest :: "'n pandas \<Rightarrow> nat \<Rightarrow> ('n cell \<times> nat) list \<Rightarrow> ('n cell \<times> nat) list" where
  "nlargest lib n s = take n (sort_key (\<lambda>(v, c). - int c) (tie_arranged lib s))"

text \<open>\<^verbatim>\<open>Series.mode()\<close>: the most frequent values, sorted.\<close>

definition mode :: "'n pandas \<Rightarrow> 'n cell list \<Rightarrow> 'n cell list" where
  "mode lib col =
     (case value_counts lib col of
        [] \<Rightarrow> []
      | (v, n) # vc \<Rightarrow> pd_sort lib (v # map fst (filter (\<lambda>p. snd p = n) vc)))"

text \<open>\<^verbatim>\<open>s[0]\<close> on a series with the default index, and \<^verbatim>\<open>s.iloc[0]\<close>.\<close>

definition getitem0 :: "'a list \<Rightarrow> py_exn + 'a" where
  "getitem0 s = (case s of [] \<Rightarrow> Inl (PyExn ''KeyError'' ''0'') | x # _ \<Rightarrow> Inr x)"

definition iloc0 :: "'a list \<Rightarrow> py_exn + 'a" where
  "iloc0 s = (case s of [] \<Rightarrow> Inl (PyExn ''IndexError'' ''single positional indexer is out-of-bounds'')
              | x # _ \<Rightarrow> Inr x)"

text \<open>Line 81.\<close>

definition df_completed :: "'n dataframe \<Rightarrow> py_exn + 'n dataframe" where
  "df_completed dff = dropna [''First Name'', ''College Name'', ''Gender''] dff"

text \<open>
  Lines 83 to 85: the two counts, then the most frequent college and its count. The
  arguments of \<^verbatim>\<open>kpi3.metric\<close> are evaluated in order, \<^verbatim>\<open>mode()[0]\<close> first.
\<close>

definition key_metrics :: "'n pandas \<Rightarrow> 'n dataframe \<Rightarrow> py_exn + nat \<times> nat \<times> 'n cell \<times> nat" where
  "key_metrics lib dff =
     bindE (df_completed dff) (\<lambda>dfc.
     bindE (getitem dfc ''College Name'') (\<lambda>c1.
     bindE (getitem0 (mode lib c1)) (\<lambda>college.
     bindE (getitem dfc ''College Name'') (\<lambda>c2.
     bindE (iloc0 (value_counts lib c2)) (\<lambda>(v, n).
       Inr (length (rows dff), length (rows dfc), college, n))))))"

text \<open>Lines 116 and 133: the top ten colleges and degrees of the completed profiles.\<close>

definition college_counts :: "'n pandas \<Rightarrow> 'n dataframe \<Rightarrow> py_exn + ('n cell \<times> nat) list" where
  "college_counts lib dfc =
     bindE (getitem dfc ''College Name'') (\<lambda>c. Inr (nlargest lib 10 (value_counts lib c)))"

definition degree_counts :: "'n pandas \<Rightarrow> 'n dataframe \<Rightarrow> py_exn + ('n cell \<times> nat) list" where
  "degree_counts lib dfc =
     bindE (getitem dfc ''Degree'') (\<lambda>c. Inr (nlargest lib 10 (value_counts lib c)))"

text \<open>\<^verbatim>\<open>.str.split(';')\<close> and \<^verbatim>\<open>.str.strip()\<close>: a cell that is not text becomes missing.\<close>

definition str_split :: "'n pandas \<Rightarrow> 'n cell list \<Rightarrow> py_exn + 'n cell list" where
  "str_split lib col =
     (if pd_str_accessor lib col
      then Inr (map (\<lambda>v. case v of Str s \<Rightarrow> StrList (split_on CHR '';'' s) | _ \<Rightarrow> NaN) col)
      else Inl (PyExn ''AttributeError'' ''Can only use .str accessor with string values!''))"

definition str_strip :: "'n pandas \<Rightarrow> 'n cell list \<Rightarrow> 'n cell list" where
  "str_strip lib col = map (\<lambda>v. case v of Str s \<Rightarrow> Str (py_strip lib s) | _ \<Rightarrow> NaN) col"

text \<open>
  \<^verbatim>\<open>df.explode(c)\<close>: a row per element of the list in column \<open>c\<close>; an empty list gives
  one row with a missing value, a cell that is no list gives the row as it is.
\<close>

definition explode_row :: "string \<Rightarrow> 'n row \<Rightarrow> 'n row list" where
  "explode_row c r =
     (case cell_of r c of
        StrList [] \<Rightarrow> [AList.update c NaN r]
      | StrList xs \<Rightarrow> map (\<lambda>x. AList.update c (Str x) r) xs
      | _ \<Rightarrow> [r])"

definition explode :: "string \<Rightarrow> 'n dataframe \<Rightarrow> py_exn + 'n dataframe" where
  "explode c df =
     (if c \<in> set (columns df) then Inr (df\<lparr>rows := concat (map (explode_row c) (rows df))\<rparr>)
      else Inl (PyExn ''KeyError'' (py_repr c)))"

text \<open>Lines 142 to 145.\<close>

definition events_exploded :: "'n pandas \<Rightarrow> 'n dataframe \<Rightarrow> py_exn + 'n dataframe" where
  "events_exploded lib dff =
     bindE (dropna [''Registered Events''] dff) (\<lambda>events_df.
     bindE (getitem events_df ''Registered Events'') (\<lambda>c.
     bindE (str_split lib c) (\<lambda>lists.
     bindE (setitem events_df ''Registered Events'' lists) (\<lambda>events_df.
     bindE (explode ''Registered Events'' events_df) (\<lambda>exploded.
     bindE (getitem exploded ''Registered Events'') (\<lambda>c.
       setitem exploded ''Registered Events'' (str_strip lib c)))))))"

text \<open>
  Lines 219 to 221: the top ten colleges among the entries of the selected event; for
  the empty name the guard \<^verbatim>\<open>if selected_event:\<close> fails and no view is computed.
\<close>

definition college_interest ::
  "'n pandas \<Rightarrow> 'n dataframe \<Rightarrow> string \<Rightarrow> py_exn + ('n cell \<times> nat) list option" where
  "college_interest lib exploded selected_event =
     (if selected_event = [] then Inr None
      else
        bindE (getitem exploded ''Registered Events'') (\<lambda>ev.
        bindE (getitem (boolean_index exploded (map (\<lambda>v. v = Str selected_event) ev))
                 ''College Name'') (\<lambda>c.
          Inr (Some (nlargest lib 10 (value_counts lib c))))))"

section \<open>Export\<close>

text \<open>
  \<^verbatim>\<open>df.to_csv(index=False).encode('utf-8')\<close>, line 30. The writer is Python's \<^verbatim>\<open>csv\<close>
  writer with minimal quoting: a field is quoted when it holds the delimiter, a quote or
  a line feed, with its quotes doubled; whether a carriage return alone makes the writer
  quote a field differs between versions of Python, so it is asked of the library. A
  missing value is the empty field; a record that is one empty field is written as two
  quotes. The header comes first, and with \<^verbatim>\<open>index=False\<close> a line has the fields of the
  columns and nothing else. Strings are byte strings already, so encoding changes
  nothing.
\<close>

definition csv_special :: "'n pandas \<Rightarrow> char \<Rightarrow> bool" where
  "csv_special lib ch \<longleftrightarrow>
     ch = CHR '','' \<or> ch = CHR 0x22 \<or> ch = CHR 0x0A \<or> (ch = CHR 0x0D \<and> csv_quotes_cr lib)"

definition csv_escape :: "string \<Rightarrow> string" where
  "csv_escape s = concat (map (\<lambda>ch. if ch = CHR 0x22 then [ch, ch] else [ch]) s)"

definition csv_quote :: "'n pandas \<Rightarrow> string \<Rightarrow> string" where
  "csv_quote lib s =
     (if \<exists>ch \<in> set s. csv_special lib ch
      then [CHR 0x22] @ csv_escape s @ [CHR 0x22]
      else s)"

text \<open>The text of a cell before quoting: \<^verbatim>\<open>str\<close> of the value, nothing for a missing one.\<close>

definition cell_text :: "'n pandas \<Rightarrow> 'n cell \<Rightarrow> string" where
  "cell_text lib v = (case v of NaN \<Rightarrow> [] | Str s \<Rightarrow> s | IntV i \<Rightarrow> str_int i | _ \<Rightarrow> py_str lib v)"

definition render_cell :: "'n pandas \<Rightarrow> 'n cell \<Rightarrow> string" where
  "render_cell lib v = csv_quote lib (cell_text lib v)"

definition csv_line :: "string list \<Rightarrow> string" where
  "csv_line fs = (case fs of [[]] \<Rightarrow> [CHR 0x22, CHR 0x22] | _ \<Rightarrow> join '','' fs) @ [CHR 0x0A]"

definition to_csv :: "'n pandas \<Rightarrow> 'n dataframe \<Rightarrow> string" where
  "to_csv lib df =
     concat (csv_line (map (csv_quote lib) (columns df)) #
             map (\<lambda>r. csv_line (map (\<lambda>c. render_cell lib (cell_of r c)) (columns df))) (rows df))"

text \<open>Reading exported bytes back, lines 45 to 48, with no normalization after.\<close>

definition reingest :: "'n pandas \<Rightarrow> string \<Rightarrow> py_exn + 'n dataframe" where
  "reingest lib bytes =
     bindE (read_csv lib (replace_crlf (py_decode lib bytes))) (\<lambda>df0.
       Inr (rename_columns remove_bom df0))"

section \<open>The script\<close>

text \<open>
  What the widgets return in one run: the uploaded bytes, the choices of the two
  multiselects given their options, and the tuple of the date input given the first and
  last date, which holds no, one or two dates.
\<close>

record 'n session =
  uploaded_file :: "string option"
  multiselect_college :: "'n cell list \<Rightarrow> 'n cell list"
  multiselect_year :: "'n cell list \<Rightarrow> 'n cell list"
  date_input :: "'n cell \<Rightarrow> 'n cell \<Rightarrow> py_exn + int list"

text \<open>\<^verbatim>\<open>Series.min()\<close> and \<^verbatim>\<open>Series.max()\<close> of a column of dates; missing when it is empty.\<close>

definition dates_of :: "'n cell list \<Rightarrow> int list" where
  "dates_of col = concat (map (\<lambda>v. case v of Date d \<Rightarrow> [d] | _ \<Rightarrow> []) col)"

definition series_min :: "'n cell list \<Rightarrow> 'n cell" where
  "series_min col = (case dates_of col of [] \<Rightarrow> NaN | d # ds \<Rightarrow> Date (fold min ds d))"

definition series_max :: "'n cell list \<Rightarrow> 'n cell" where
  "series_max col = (case dates_of col of [] \<Rightarrow> NaN | d # ds \<Rightarrow> Date (fold max ds d))"

text \<open>Lines 59 to 64: the sidebar, which yields the filter selection.\<close>

definition sidebar :: "'n pandas \<Rightarrow> 'n session \<Rightarrow> 'n dataframe \<Rightarrow> py_exn + 'n selection" where
  "sidebar lib ses df =
     bindE (getitem df ''College Name'') (\<lambda>college.
     bindE (py_sorted lib (unique (filter (\<lambda>v. \<not> isna v) college))) (\<lambda>college_list.
     bindE (getitem df ''Year of Study Cleaned'') (\<lambda>year.
     bindE (py_sorted lib (unique year)) (\<lambda>year_list.
     bindE (getitem df ''Registration Date'') (\<lambda>date1.
     bindE (getitem df ''Registration Date'') (\<lambda>date2.
     bindE (date_input ses (series_min date1) (series_max date2)) (\<lambda>range.
       Inr \<lparr>selected_colleges = multiselect_college ses college_list,
            selected_years = multiselect_year ses year_list,
            selected_date_range = range\<rparr>)))))))"

text \<open>Lines 36 to 85.\<close>

definition app :: "'n pandas \<Rightarrow> 'n session \<Rightarrow> 'n outcome" where
  "app lib ses =
     (case uploaded_file ses of
        None \<Rightarrow> StopInfo ''Please upload a CSV file to get started.''
      | Some bytes \<Rightarrow>
          (case ingest lib bytes of
             Inl stopped \<Rightarrow> stopped
           | Inr df \<Rightarrow>
               (case bindE (sidebar lib ses df) (df_filtered df) of
                  Inl e \<Rightarrow> Uncaught e
                | Inr dff \<Rightarrow>
                    if empty dff then StopWarning ''No data matches the current filter settings.''
                    else (case key_metrics lib dff of
                            Inl e \<Rightarrow> Uncaught e
                          | Inr (n_all, n_completed, college, n_top) \<Rightarrow>
                              KeyMetrics n_all n_completed college n_top))))"

section \<open>What normalization keeps\<close>

text \<open>
  The rows of a frame whose \<^verbatim>\<open>Created At\<close> the library parses, and among them the rows
  whose \<^verbatim>\<open>Year of Study\<close> it parses. Each parser sees the column as it stands when the
  source calls it: \<^verbatim>\<open>pd.to_numeric\<close> runs after the rows without a timestamp are gone.
\<close>

definition parses_timestamp :: "'n pandas \<Rightarrow> 'n dataframe \<Rightarrow> 'n row \<Rightarrow> bool" where
  "parses_timestamp lib df r \<longleftrightarrow>
     pd_to_datetime lib (map (\<lambda>r. cell_of r ''Created At'') (rows df)) (cell_of r ''Created At'') \<noteq> None"

definition dated_rows :: "'n pandas \<Rightarrow> 'n dataframe \<Rightarrow> 'n row list" where
  "dated_rows lib df = filter (parses_timestamp lib df) (rows df)"

definition year_of :: "'n pandas \<Rightarrow> 'n dataframe \<Rightarrow> 'n row \<Rightarrow> 'n option" where
  "year_of lib df r =
     pd_to_numeric lib (map (\<lambda>r. cell_of r ''Year of Study'') (dated_rows lib df)) (cell_of r ''Year of Study'')"

definition parsed_rows :: "'n pandas \<Rightarrow> 'n dataframe \<Rightarrow> 'n row list" where
  "parsed_rows lib df = filter (\<lambda>r. year_of lib df r \<noteq> None) (dated_rows lib df)"

text \<open>How a normalized row \<open>r'\<close> derives from the parsed row \<open>r\<close>.\<close>

definition normalized :: "'n pandas \<Rightarrow> 'n dataframe \<Rightarrow> 'n row \<Rightarrow> 'n row \<Rightarrow> bool" where
  "normalized lib df r r' \<longleftrightarrow>
     (\<exists>d t x i.
        pd_to_datetime lib (map (\<lambda>r. cell_of r ''Created At'') (rows df)) (cell_of r ''Created At'') = Some (d, t) \<and>
        year_of lib df r = Some x \<and>
        np_astype_int lib x = Inr i \<and>
        r' = AList.update ''Year of Study Cleaned'' (Str (str_int i))
               (AList.update ''Year of Study Cleaned'' (Num x)
                 (AList.update ''Registration Date'' (Date d)
                   (AList.update ''Created At'' (Timestamp d t) r))))"

text \<open>
  What a top-ten view of a column is: at most ten entries and as many as there are
  values, largest count first, each value once and with its own count, no value left
  out that occurs more often than one kept, and the entries of any one count in the
  order in which the library arranges the counts of the column.
\<close>

definition top_ten_of :: "'n pandas \<Rightarrow> 'n cell list \<Rightarrow> ('n cell \<times> nat) list \<Rightarrow> bool" where
  "top_ten_of lib col res \<longleftrightarrow>
     length res \<le> 10 \<and>
     length res = min 10 (card {v \<in> set col. v \<noteq> NaN}) \<and>
     sorted_wrt (\<lambda>a b. snd b \<le> snd a) res \<and>
     distinct (map fst res) \<and>
     (\<forall>p \<in> set res. fst p \<in> set col \<and> fst p \<noteq> NaN \<and> snd p = count_list col (fst p)) \<and>
     (\<forall>v \<in> set col. v \<noteq> NaN \<longrightarrow> v \<notin> fst ` set res \<longrightarrow> (\<forall>p \<in> set res. count_list col v \<le> snd p)) \<and>
     (\<forall>k. \<exists>m. filter (\<lambda>p. snd p = k) res =
               take m (filter (\<lambda>p. snd p = k) (tie_arranged lib (value_counts lib col))))"

text \<open>
  The exploded event entries of one record: none when the event list is missing, one per
  name of the list when it is text, and one without a name when it is anything else.
\<close>

definition event_entries :: "'n pandas \<Rightarrow> 'n row \<Rightarrow> 'n row list" where
  "event_entries lib r =
     (case cell_of r ''Registered Events'' of
        NaN \<Rightarrow> []
      | Str s \<Rightarrow> map (\<lambda>x. AList.update ''Registered Events'' (Str (py_strip lib x)) r)
                   (split_on CHR '';'' s)
      | _ \<Rightarrow> [AList.update ''Registered Events'' NaN r])"

text \<open>
  The plain reading of a CSV text, against which the export is measured: fields are
  separated by commas and records ended by line feeds; a field that starts with a quote
  runs to its closing quote, a doubled quote inside it standing for one quote, and may
  hold commas and line feeds. The reader goes through the text one character at a time,
  with the field and the record read so far.
\<close>

datatype csv_state = FieldStart | InPlain | InQuoted | QuoteSeen

fun csv_scan :: "csv_state \<Rightarrow> string \<Rightarrow> string list \<Rightarrow> string \<Rightarrow> string list list" where
  "csv_scan s fld rcd [] = (if s = FieldStart \<and> fld = [] \<and> rcd = [] then [] else [rcd @ [fld]])"
| "csv_scan s fld rcd (c # cs) =
     (if s = InQuoted then
        (if c = CHR 0x22 then csv_scan QuoteSeen fld rcd cs
         else csv_scan InQuoted (fld @ [c]) rcd cs)
      else if s = QuoteSeen \<and> c = CHR 0x22 then csv_scan InQuoted (fld @ [c]) rcd cs
      else if c = CHR '','' then csv_scan FieldStart [] (rcd @ [fld]) cs
      else if c = CHR 0x0A then (rcd @ [fld]) # csv_scan FieldStart [] [] cs
      else if s = FieldStart \<and> c = CHR 0x22 then csv_scan InQuoted fld rcd cs
      else csv_scan InPlain (fld @ [c]) rcd cs)"

definition after_field :: "string \<Rightarrow> string list \<Rightarrow> char \<Rightarrow> string \<Rightarrow> string list list" where
  "after_field fld rcd c cs =
     (if c = CHR '','' then csv_scan FieldStart [] (rcd @ [fld]) cs
      else (rcd @ [fld]) # csv_scan FieldStart [] [] cs)"

definition csv_records :: "string \<Rightarrow> string list list" where
  "csv_records content = csv_scan FieldStart [] [] content"

text \<open>
  A tokenizer that reads a text plainly: the first record is the header, the others are
  the records, and a text with no record has no columns. The tokenizer of pandas reads
  this way a text whose records all have as many fields as the header, whose header
  names are distinct and not empty, and that has no blank line.
\<close>

definition tokenize_plain :: "string \<Rightarrow> py_exn + string list \<times> string list list" where
  "tokenize_plain content =
     (case csv_records content of
        [] \<Rightarrow> Inl (PyExn ''EmptyDataError'' ''No columns to parse from file'')
      | header # records \<Rightarrow> Inr (header, records))"

text \<open>
  The texts a frame is exported as: one list per row, with the text of the cell of each
  column, and the texts of one column. A cell read back is what ingestion reads from
  the exported text of the original cell, with the texts of its column for the
  inference of the type.
\<close>

definition exported_texts :: "'n pandas \<Rightarrow> 'n dataframe \<Rightarrow> string list list" where
  "exported_texts lib df = map (\<lambda>r. map (\<lambda>c. cell_text lib (cell_of r c)) (columns df)) (rows df)"

definition column_texts :: "'n pandas \<Rightarrow> 'n dataframe \<Rightarrow> string \<Rightarrow> string list" where
  "column_texts lib df c = map (\<lambda>r. cell_text lib (cell_of r c)) (rows df)"

definition reread_cell :: "'n pandas \<Rightarrow> 'n dataframe \<Rightarrow> string \<Rightarrow> 'n row \<Rightarrow> 'n cell" where
  "reread_cell lib df c r = read_field lib (column_texts lib df c) (cell_text lib (cell_of r c))"

section \<open>A library instance for concrete runs\<close>

text \<open>
  For evaluating the model on concrete tables: a library that knows the texts of a small
  table and nothing else, with integers for numbers: it tokenizes four files, reads a
  column of small integers as integers (as floats when a value is missing) and every
  other column as text, and parses and prints three timestamps. \<^verbatim>\<open>2024-03-01\<close> is day
  19783 of the Unix epoch.
\<close>

fun str_le :: "string \<Rightarrow> string \<Rightarrow> bool" where
  "str_le [] ys = True"
| "str_le (x # xs) [] = False"
| "str_le (x # xs) (y # ys) = ((of_char x :: nat) < of_char y \<or> (x = y \<and> str_le xs ys))"

fun insert_cell :: "'n cell \<Rightarrow> 'n cell list \<Rightarrow> 'n cell list" where
  "insert_cell v [] = [v]"
| "insert_cell v (w # ws) =
     (if (case (v, w) of (Str a, Str b) \<Rightarrow> str_le a b | _ \<Rightarrow> True) then v # w # ws
      else w # insert_cell v ws)"

definition sort_cells :: "'n cell list \<Rightarrow> 'n cell list" where
  "sort_cells vs = foldr insert_cell vs []"

definition sample_csv :: string where
  "sample_csv = ''Created At,Year of Study,College Name'' @ [CHR 0x0A] @
                ''2024-03-01 10:00:00,2,MIT'' @ [CHR 0x0A]"

definition profiles_csv :: string where
  "profiles_csv = ''Created At,Year of Study,College Name,First Name,Gender'' @ [CHR 0x0A] @
                  ''2024-03-01 10:00:00,2,MIT,,F'' @ [CHR 0x0A]"

definition exported_sample :: string where
  "exported_sample =
     ''Created At,Year of Study,College Name,Registration Date,Year of Study Cleaned'' @ [CHR 0x0A] @
     ''2024-03-01 10:00:00+00:00,2,MIT,2024-03-01,2'' @ [CHR 0x0A]"

definition table_lib :: "int pandas" where
  "table_lib =
     \<lparr>py_decode = (\<lambda>bytes. bytes),
      pd_tokenize = (\<lambda>content.
          if content = sample_csv
          then Inr ([''Created At'', ''Year of Study'', ''College Name''],
                    [[''2024-03-01 10:00:00'', ''2'', ''MIT'']])
          else if content = ''Created At,Year of Study,College Name'' @ [CHR 0x0A]
          then Inr ([''Created At'', ''Year of Study'', ''College Name''], [])
          else if content = exported_sample
          then Inr ([''Created At'', ''Year of Study'', ''College Name'', ''Registration Date'',
                     ''Year of Study Cleaned''],
                    [[''2024-03-01 10:00:00+00:00'', ''2'', ''MIT'', ''2024-03-01'', ''2'']])
          else if content = profiles_csv
          then Inr ([''Created At'', ''Year of Study'', ''College Name'', ''First Name'', ''Gender''],
                    [[''2024-03-01 10:00:00'', ''2'', ''MIT'', [], ''F'']])
          else Inl (PyExn ''EmptyDataError'' ''No columns to parse from file'')),
      pd_infer = (\<lambda>col t.
          if list_all (\<lambda>x. x \<in> set na_values \<or> x \<in> set [''1'', ''2'', ''3'', ''4'']) col
          then (case map_of [(''1'', 1), (''2'', 2), (''3'', 3), (''4'', 4)] t of
                  None \<Rightarrow> Str t
                | Some i \<Rightarrow> if list_ex (\<lambda>x. x \<in> set na_values) col then Num i else IntV i)
          else Str t),
      pd_to_datetime = (\<lambda>col v. case v of
          Timestamp d t \<Rightarrow> Some (d, t)
        | Str s \<Rightarrow> map_of [(''2024-03-01 10:00:00'', (19783, 36000000000000)),
                            (''2024-03-02 23:59:59'', (19784, 86399000000000)),
                            (''2024-03-05 00:00:00'', (19787, 0))] s
        | _ \<Rightarrow> None),
      pd_to_numeric = (\<lambda>col v. case v of
          Num x \<Rightarrow> Some x
        | IntV i \<Rightarrow> Some i
        | Str s \<Rightarrow> map_of [(''1'', 1), (''2'', 2), (''3'', 3), (''4'', 4)] s
        | _ \<Rightarrow> None),
      np_astype_int = (\<lambda>x. Inr x),
      py_str = (\<lambda>v. case v of
          Timestamp d t \<Rightarrow> (if (d, t) = (19783, 36000000000000) then ''2024-03-01 10:00:00+00:00'' else [])
        | Date d \<Rightarrow> (if d = 19783 then ''2024-03-01'' else [])
        | _ \<Rightarrow> []),
      py_strip = ascii_strip,
      pd_tie_rank = (\<lambda>s p. 0),
      pd_str_accessor = (\<lambda>col. True),
      pd_sort = sort_cells,
      py_sorted = (\<lambda>vs. if list_all (\<lambda>v. case v of Str s \<Rightarrow> True | _ \<Rightarrow> False) vs
                          then Inr (sort_cells vs)
                          else Inl (PyExn ''TypeError'' ''values do not compare'')),
      csv_quotes_cr = True\<rparr>"

definition reg_row :: "string \<Rightarrow> string \<Rightarrow> string \<Rightarrow> int row" where
  "reg_row created year college =
     [(''Created At'', Str created), (''Year of Study'', Str year), (''College Name'', Str college)]"

definition raw3 :: "int dataframe" where
  "raw3 =
     \<lparr>columns = [''Created At'', ''Year of Study'', ''College Name''],
      rows = [reg_row ''2024-03-01 10:00:00'' ''2'' ''MIT'',
              reg_row ''not a date'' ''3'' ''MIT'',
              reg_row ''2024-03-02 23:59:59'' ''two'' ''CIT'',
              reg_row ''2024-03-05 00:00:00'' ''4'' ''CIT'']\<rparr>"

definition raw_years :: "int dataframe" where
  "raw_years =
     \<lparr>columns = [''Created At'', ''Year of Study'', ''College Name''],
      rows = [reg_row ''2024-03-01 10:00:00'' ''2'' ''MIT'',
              reg_row ''2024-03-02 23:59:59'' ''two'' ''MIT'',
              [(''Created At'', Str ''2024-03-05 00:00:00''), (''Year of Study'', NaN),
               (''College Name'', Str ''CIT'')]]\<rparr>"

definition normalized3 :: "int dataframe" where
  "normalized3 =
     \<lparr>columns = [''Created At'', ''Year of Study'', ''College Name'', ''Registration Date'',
                 ''Year of Study Cleaned''],
      rows = [[(''Created At'', Timestamp 19783 36000000000000), (''Year of Study'', Str ''2''),
               (''College Name'', Str ''MIT''), (''Registration Date'', Date 19783),
               (''Year of Study Cleaned'', Str ''2'')],
              [(''Created At'', Timestamp 19787 0), (''Year of Study'', Str ''4''),
               (''College Name'', Str ''CIT''), (''Registration Date'', Date 19787),
               (''Year of Study Cleaned'', Str ''4'')]]\<rparr>"

definition ingested_sample :: "int dataframe" where
  "ingested_sample =
     \<lparr>columns = [''Created At'', ''Year of Study'', ''College Name'', ''Registration Date'',
                 ''Year of Study Cleaned''],
      rows = [[(''Created At'', Timestamp 19783 36000000000000), (''Year of Study'', IntV 2),
               (''College Name'', Str ''MIT''), (''Registration Date'', Date 19783),
               (''Year of Study Cleaned'', Str ''2'')]]\<rparr>"

definition select3 :: "int selection" where
  "select3 =
     \<lparr>selected_colleges = [Str ''CIT'', Str ''MIT''], selected_years = [Str ''2''],
      selected_date_range = [19783, 19787]\<rparr>"

text \<open>The day of a date cell, for stating the filter on frames whose dates are all present.\<close>

definition date_of :: "'n cell \<Rightarrow> int" where
  "date_of v = (case v of Date d \<Rightarrow> d | _ \<Rightarrow> 0)"

definition session_with :: "string \<Rightarrow> int cell list \<Rightarrow> int cell list \<Rightarrow> int list \<Rightarrow> int session" where
  "session_with bytes cs ys picked =
     \<lparr>uploaded_file = Some bytes,
      multiselect_college = (\<lambda>options. cs),
      multiselect_year = (\<lambda>options. ys),
      date_input = (\<lambda>first last. Inr picked)\<rparr>"

definition header_only_csv :: string where
  "header_only_csv = ''Created At,Year of Study,College Name'' @ [CHR 0x0A]"

definition profiles_frame :: "int dataframe" where
  "profiles_frame =
     \<lparr>columns = [''Created At'', ''Year of Study'', ''College Name'', ''First Name'', ''Gender'',
                 ''Registration Date'', ''Year of Study Cleaned''],
      rows = [[(''Created At'', Timestamp 19783 36000000000000), (''Year of Study'', IntV 2),
               (''College Name'', Str ''MIT''), (''First Name'', NaN), (''Gender'', Str ''F''),
               (''Registration Date'', Date 19783), (''Year of Study Cleaned'', Str ''2'')]]\<rparr>"

definition events_frame :: "int dataframe" where
  "events_frame =
     \<lparr>columns = [''College Name'', ''Registered Events''],
      rows = [[(''College Name'', Str ''MIT''), (''Registered Events'', Str ''A;B; A'')],
              [(''College Name'', Str ''CIT''), (''Registered Events'', NaN)]]\<rparr>"

definition reread_sample :: "int dataframe" where
  "reread_sample =
     \<lparr>columns = [''Created At'', ''Year of Study'', ''College Name'', ''Registration Date'',
                 ''Year of Study Cleaned''],
      rows = [[(''Created At'', Str ''2024-03-01 10:00:00+00:00''), (''Year of Study'', IntV 2),
               (''College Name'', Str ''MIT''), (''Registration Date'', Str ''2024-03-01''),
               (''Year of Study Cleaned'', IntV 2)]]\<rparr>"

definition view_row :: "string \<Rightarrow> string \<Rightarrow> string \<Rightarrow> int row" where
  "view_row college degree event =
     [(''College Name'', Str college), (''Degree'', Str degree), (''Registered Events'', Str event)]"

definition views_frame :: "int dataframe" where
  "views_frame =
     \<lparr>columns = [''College Name'', ''Degree'', ''Registered Events''],
      rows = [view_row ''c01'' ''CSE'' ''A'', view_row ''c02'' ''ECE'' ''A'', view_row ''c03'' ''CSE'' ''A'',
              view_row ''c04'' ''ECE'' ''B'', view_row ''c05'' ''CSE'' ''B'', view_row ''c06'' ''ECE'' ''B'',
              view_row ''c07'' ''CSE'' ''B'', view_row ''c08'' ''ECE'' ''B'', view_row ''c09'' ''CSE'' ''B'',
              view_row ''c10'' ''ECE'' ''B'', view_row ''c11'' ''CSE'' ''B'', view_row ''c12'' ''ECE'' ''B'',
              view_row ''c05'' ''CSE'' ''A'']\<rparr>"

section \<open>Proofs\<close>

lemma bindE_Inr_iff: "bindE m f = Inr y \<longleftrightarrow> (\<exists>x. m = Inr x \<and> f x = Inr y)"
  by (cases m) (simp_all add: bindE_def)

subsection \<open>Frames and lists\<close>

lemma cell_of_update: "cell_of (AList.update k v r) c = (if c = k then v else cell_of r c)"
  by (simp add: cell_of_def update_conv')

lemma getitem_Inr: "getitem df c = Inr vs \<Longrightarrow> vs = map (\<lambda>r. cell_of r c) (rows df)"
  by (auto simp: getitem_def split: if_splits)

lemma setitem_rows:
  "setitem df c vs = Inr df' \<Longrightarrow> rows df' = map (\<lambda>(r, v). AList.update c v r) (zip (rows df) vs)"
  by (auto simp: setitem_def split: if_splits)

lemma dropna_rows:
  "dropna cs df = Inr df' \<Longrightarrow>
   rows df' = filter (\<lambda>r. list_all (\<lambda>c. \<not> isna (cell_of r c)) cs) (rows df)"
  by (auto simp: dropna_def split: list.splits)

lemma zip_map_self: "map h (zip xs (map f xs)) = map (\<lambda>x. h (x, f x)) xs"
  by (induction xs) auto

lemma map2_map_map: "map h (zip (map f xs) (map g xs)) = map (\<lambda>x. h (f x, g x)) xs"
  by (induction xs) auto

lemma traverse_map_all2:
  "traverse f (map g xs) = Inr ys \<Longrightarrow> list_all2 (\<lambda>x y. f (g x) = Inr y) xs ys"
  by (induction xs arbitrary: ys) (auto split: sum.splits)

lemma all2_map_on:
  "list_all2 P xs ys \<Longrightarrow> (\<And>x y. x \<in> set xs \<Longrightarrow> P x y \<Longrightarrow> y = h x) \<Longrightarrow> ys = map h xs"
  by (induction xs ys rule: list_all2_induct) auto

lemma all2_mono_on:
  "list_all2 P xs ys \<Longrightarrow> (\<And>x y. x \<in> set xs \<Longrightarrow> P x y \<Longrightarrow> Q x y) \<Longrightarrow> list_all2 Q xs ys"
  by (induction xs ys rule: list_all2_induct) auto

lemma all2_zip_map:
  "list_all2 P xs ys \<Longrightarrow>
   list_all2 (\<lambda>x z. \<exists>y. P x y \<and> z = g (f x) (a y)) xs
     (map (\<lambda>(x, y). g x y) (zip (map f xs) (map a ys)))"
  by (induction xs ys rule: list_all2_induct) auto

lemma exec_None_Cons:
  "exec (s # ss) df = (None, out) \<longleftrightarrow> (\<exists>df'. s df = Inr df' \<and> exec ss df' = (None, out))"
  by (cases "s df") auto

subsection \<open>The rows normalization returns\<close>

text \<open>
  When \<^verbatim>\<open>preprocess_data\<close> returns, the rows of its frame are, in order, the rows of the
  input that parse, each with its three derived cells.
\<close>

lemma preprocess_rows:
  fixes lib :: "'n pandas"
  assumes ex: "exec (preprocess_stmts lib) df = (None, out)"
  shows "list_all2 (normalized lib df) (parsed_rows lib df) (rows out)"
proof -
  define c1 where "c1 = map (\<lambda>r. cell_of r ''Created At'') (rows df)"
  define kept1 where "kept1 = filter (\<lambda>r. pd_to_datetime lib c1 (cell_of r ''Created At'') \<noteq> None) (rows df)"
  define c3 where "c3 = map (\<lambda>r. cell_of r ''Year of Study'') kept1"
  define kept2 where "kept2 = filter (\<lambda>r. pd_to_numeric lib c3 (cell_of r ''Year of Study'') \<noteq> None) kept1"
  define ts :: "'n cell \<Rightarrow> 'n cell"
    where "ts = (\<lambda>v. case pd_to_datetime lib c1 v of None \<Rightarrow> NaN | Some (d, t) \<Rightarrow> Timestamp d t)"
  define f1 where "f1 = (\<lambda>r. AList.update ''Created At'' (ts (cell_of r ''Created At'')) r)"
  define dd :: "'n row \<Rightarrow> 'n cell"
    where "dd = (\<lambda>r. case pd_to_datetime lib c1 (cell_of r ''Created At'') of
                        None \<Rightarrow> NaN | Some (d, t) \<Rightarrow> Date d)"
  define f3 where "f3 = (\<lambda>r. AList.update ''Registration Date'' (dd r) (f1 r))"
  define nm :: "'n cell \<Rightarrow> 'n cell"
    where "nm = (\<lambda>v. case pd_to_numeric lib c3 v of None \<Rightarrow> NaN | Some x \<Rightarrow> Num x)"
  define f4 where "f4 = (\<lambda>r. AList.update ''Year of Study Cleaned'' (nm (cell_of r ''Year of Study'')) (f3 r))"
  from ex obtain df1 df2 df3 df4 df5 where
    s1: "bindE (getitem df ''Created At'') (\<lambda>c. setitem df ''Created At'' (to_datetime lib c)) = Inr df1" and
    s2: "dropna [''Created At''] df1 = Inr df2" and
    s3: "bindE (getitem df2 ''Created At'') (\<lambda>c. bindE (dt_date c) (\<lambda>d.
           setitem df2 ''Registration Date'' d)) = Inr df3" and
    s4: "bindE (getitem df3 ''Year of Study'') (\<lambda>c.
           setitem df3 ''Year of Study Cleaned'' (to_numeric lib c)) = Inr df4" and
    s5: "dropna [''Year of Study Cleaned''] df4 = Inr df5" and
    s6: "bindE (getitem df5 ''Year of Study Cleaned'') (\<lambda>c. bindE (astype_int lib c) (\<lambda>i.
           setitem df5 ''Year of Study Cleaned'' (astype_str lib i))) = Inr out"
    unfolding preprocess_stmts_def exec_None_Cons by auto
  have r1: "rows df1 = map f1 (rows df)"
    using s1 by (auto simp: bindE_Inr_iff dest!: getitem_Inr setitem_rows
        simp: to_datetime_def zip_map_self f1_def ts_def c1_def comp_def)
  have r2: "rows df2 = map f1 kept1"
    using dropna_rows[OF s2] unfolding r1 kept1_def
    by (auto simp: filter_map comp_def f1_def cell_of_update isna_def ts_def split: option.splits
        intro!: arg_cong[where f = "map _"] filter_cong)
  have r3: "rows df3 = map f3 kept1"
  proof -
    from s3 obtain c2 d where g: "getitem df2 ''Created At'' = Inr c2" and t: "dt_date c2 = Inr d"
      and st: "setitem df2 ''Registration Date'' d = Inr df3"
      by (auto simp: bindE_Inr_iff)
    have c2: "c2 = map (\<lambda>r. ts (cell_of r ''Created At'')) kept1"
      using getitem_Inr[OF g] by (simp add: r2 comp_def f1_def cell_of_update)
    have "d = map dd kept1"
      using t unfolding dt_date_def c2
      by (rule all2_map_on[OF traverse_map_all2])
         (auto simp: kept1_def ts_def dd_def split: option.splits)
    then show ?thesis
      using setitem_rows[OF st] by (simp add: r2 map2_map_map f3_def)
  qed
  have r4: "rows df4 = map f4 kept1"
  proof -
    from s4 obtain c where g: "getitem df3 ''Year of Study'' = Inr c"
      and st: "setitem df3 ''Year of Study Cleaned'' (to_numeric lib c) = Inr df4"
      by (auto simp: bindE_Inr_iff)
    have c: "c = c3"
      using getitem_Inr[OF g] by (simp add: r3 comp_def f3_def f1_def cell_of_update c3_def)
    show ?thesis
      using setitem_rows[OF st]
      by (simp add: c to_numeric_def r3 f4_def nm_def) (simp add: c3_def map2_map_map comp_def)
  qed
  have r5: "rows df5 = map f4 kept2"
    using dropna_rows[OF s5] unfolding r4 kept2_def
    by (auto simp: filter_map comp_def f4_def cell_of_update isna_def nm_def split: option.splits
        intro!: arg_cong[where f = "map _"] filter_cong)
  from s6 obtain c ints where g: "getitem df5 ''Year of Study Cleaned'' = Inr c"
    and t: "astype_int lib c = Inr ints"
    and st: "setitem df5 ''Year of Study Cleaned'' (astype_str lib ints) = Inr out"
    by (auto simp: bindE_Inr_iff)
  have c: "c = map (\<lambda>r. nm (cell_of r ''Year of Study'')) kept2"
    using getitem_Inr[OF g] by (simp add: r5 comp_def f4_def cell_of_update)
  have k1: "dated_rows lib df = kept1"
    by (simp add: dated_rows_def kept1_def parses_timestamp_def [abs_def] c1_def)
  have k2: "parsed_rows lib df = kept2"
    by (simp add: parsed_rows_def kept2_def k1 year_of_def c3_def)
  have "list_all2 (\<lambda>r y. (case nm (cell_of r ''Year of Study'') of
                 Num x \<Rightarrow> (case np_astype_int lib x of Inl e \<Rightarrow> Inl e | Inr i \<Rightarrow> Inr (IntV i))
               | IntV i \<Rightarrow> Inr (IntV i)
               | NaN \<Rightarrow> Inl (PyExn ''IntCastingNaNError'' ''Cannot convert non-finite values (NA or inf) to integer'')
               | _ \<Rightarrow> Inl (PyExn ''TypeError'' ''int() argument must be a string, a bytes-like object or a real number'')) = Inr y)
          kept2 ints"
    using t unfolding astype_int_def c by (rule traverse_map_all2)
  from all2_zip_map[OF this, of "\<lambda>r v. AList.update ''Year of Study Cleaned'' v r" f4
      "\<lambda>v. case v of IntV i \<Rightarrow> Str (str_int i) | Str s \<Rightarrow> Str s | _ \<Rightarrow> Str (py_str lib v)"]
  have "list_all2 (normalized lib df) kept2
      (map (\<lambda>(r, v). AList.update ''Year of Study Cleaned'' v r) (zip (map f4 kept2) (astype_str lib ints)))"
    unfolding astype_str_def
    by (rule all2_mono_on)
       (auto simp: normalized_def kept2_def kept1_def nm_def f4_def f3_def f1_def ts_def dd_def
             year_of_def k1 c3_def c1_def
             split: option.splits sum.splits)
  then show ?thesis
    using setitem_rows[OF st] by (simp add: r5 k2)
qed

lemma preprocess_data_Inr:
  assumes "lookup h a = Some df" and "preprocess_data lib a h = (Inr b, h')"
  shows "\<exists>out. b = a \<and> lookup h' b = Some out \<and> exec (preprocess_stmts lib) df = (None, out)"
  using assms by (auto simp: preprocess_data_def lookup_def split: prod.splits option.splits if_splits)

lemma normalized_cells:
  assumes "normalized lib df r r'"
  shows "\<exists>d t x i. cell_of r' ''Created At'' = Timestamp d t \<and> cell_of r' ''Registration Date'' = Date d \<and>
           year_of lib df r = Some x \<and> np_astype_int lib x = Inr i \<and>
           cell_of r' ''Year of Study Cleaned'' = Str (str_int i) \<and>
           cell_of r' ''Year of Study'' = cell_of r ''Year of Study''"
  using assms by (auto simp: normalized_def cell_of_update)

lemmas run_defs = preprocess_data_def lookup_def preprocess_stmts_def bindE_def getitem_def setitem_def
    dropna_def to_datetime_def to_numeric_def dt_date_def astype_int_def astype_str_def cell_of_def isna_def

lemma all2_rightD: "list_all2 P xs ys \<Longrightarrow> y \<in> set ys \<Longrightarrow> \<exists>x \<in> set xs. P x y"
  by (induction xs ys rule: list_all2_induct) auto

subsection \<open>Normalization emits no partially derived record\<close>

text \<open>
  Claim C1. Whenever \<^verbatim>\<open>preprocess_data\<close> returns, every row of its frame has a calendar
  date and a cleaned year label, neither missing; and the rows it returns are, in order
  and one for one, the input rows whose timestamp and whose year both parse, with every
  other column as it was. A row that fails to parse is not in the output at all.
\<close>

theorem normalization_no_partial_records:
  assumes "lookup h a = Some df" and "preprocess_data lib a h = (Inr b, h')"
  shows "\<exists>out. lookup h' b = Some out \<and>
           (\<forall>r \<in> set (rows out).
              cell_of r ''Registration Date'' \<noteq> NaN \<and> cell_of r ''Year of Study Cleaned'' \<noteq> NaN) \<and>
           list_all2 (\<lambda>r r'. \<forall>c. c \<notin> {''Created At'', ''Registration Date'', ''Year of Study Cleaned''}
                                \<longrightarrow> cell_of r' c = cell_of r c)
             (parsed_rows lib df) (rows out)"
proof -
  from preprocess_data_Inr[OF assms] obtain out where
    b: "b = a" and h': "lookup h' b = Some out" and ex: "exec (preprocess_stmts lib) df = (None, out)"
    by blast
  note all2 = preprocess_rows[OF ex]
  have "\<forall>r' \<in> set (rows out). \<exists>r. normalized lib df r r'"
    using all2_rightD[OF all2] by blast
  then have 1: "\<forall>r \<in> set (rows out).
      cell_of r ''Registration Date'' \<noteq> NaN \<and> cell_of r ''Year of Study Cleaned'' \<noteq> NaN"
    by (fastforce dest: normalized_cells)
  have 2: "list_all2 (\<lambda>r r'. \<forall>c. c \<notin> {''Created At'', ''Registration Date'', ''Year of Study Cleaned''}
                                \<longrightarrow> cell_of r' c = cell_of r c) (parsed_rows lib df) (rows out)"
    by (rule list_all2_mono[OF all2]) (auto simp: normalized_def cell_of_update)
  show ?thesis using 1 2 by (simp add: h')
qed

text \<open>On the four-row table: rows two and three fail to parse, two rows remain.\<close>

lemma run3: "fst (preprocess_data table_lib 0 [raw3]) = Inr 0"
  by (simp add: run_defs table_lib_def raw3_def reg_row_def)

lemma parsed3: "length (parsed_rows table_lib raw3) = 2"
  by (simp add: parsed_rows_def dated_rows_def parses_timestamp_def year_of_def cell_of_def table_lib_def raw3_def reg_row_def)

theorem normalization_no_partial_records_witness:
  "lookup [raw3] 0 = Some raw3 \<and>
   fst (preprocess_data table_lib 0 [raw3]) = Inr 0 \<and>
   (\<exists>out. lookup (snd (preprocess_data table_lib 0 [raw3])) 0 = Some out \<and>
      list_all (\<lambda>r. cell_of r ''Registration Date'' \<noteq> NaN \<and> cell_of r ''Year of Study Cleaned'' \<noteq> NaN)
        (rows out) \<and>
      length (rows out) = 2)"
proof -
  have h: "lookup [raw3] 0 = Some raw3" by (simp add: lookup_def)
  have e: "preprocess_data table_lib 0 [raw3] = (Inr 0, snd (preprocess_data table_lib 0 [raw3]))"
    using run3 by (metis prod.collapse)
  from normalization_no_partial_records[OF h e] parsed3 run3 h show ?thesis
    by (auto simp: list_all_iff dest: list_all2_lengthD)
qed

subsection \<open>The year label\<close>

lemma digit_char_in: "d < 10 \<Longrightarrow> digit_char d \<in> decimal_digits"
  unfolding digit_char_def decimal_digits_def by (rule nth_mem) simp

lemma str_nat_digits: "set (str_nat n) \<subseteq> decimal_digits"
proof (induction n rule: str_nat.induct)
  case (1 n)
  show ?case
  proof (cases "n < 10")
    case True
    then have "str_nat n = [digit_char n]"
      by (simp add: str_nat.simps [of n])
    then show ?thesis using digit_char_in[OF True] by simp
  next
    case False
    then have "str_nat n = str_nat (n div 10) @ [digit_char (n mod 10)]"
      by (simp add: str_nat.simps [of n])
    moreover have "digit_char (n mod 10) \<in> decimal_digits"
      by (rule digit_char_in) simp
    moreover have "set (str_nat (n div 10)) \<subseteq> decimal_digits"
      using False by (rule 1)
    ultimately show ?thesis by simp
  qed
qed

lemma str_int_chars: "set (str_int i) \<subseteq> insert CHR ''-'' decimal_digits"
  using str_nat_digits[of "nat i"] str_nat_digits[of "nat (- i)"]
  by (auto simp: str_int_def)

lemma point_not_digit: "CHR ''.'' \<notin> insert CHR ''-'' decimal_digits"
  by (simp add: decimal_digits_def)

text \<open>
  Claim C6. The year of study is parsed as a number and cast to an integer. The rows
  that are returned are, one for one, the rows whose year parsed: a row whose year is
  not numeric or is missing has no counterpart in the output. The label of a returned
  row is a text cell, Python's \<^verbatim>\<open>str\<close> of that integer: digits after an optional minus
  sign, with no decimal point.
\<close>

theorem year_label_is_integer_text:
  assumes "lookup h a = Some df" and "preprocess_data lib a h = (Inr b, h')"
  shows "\<exists>out. lookup h' b = Some out \<and>
           list_all2 (\<lambda>r r'. \<exists>x i. year_of lib df r = Some x \<and> np_astype_int lib x = Inr i \<and>
                                cell_of r' ''Year of Study Cleaned'' = Str (str_int i) \<and>
                                set (str_int i) \<subseteq> insert CHR ''-'' decimal_digits \<and>
                                CHR ''.'' \<notin> set (str_int i))
             (filter (\<lambda>r. year_of lib df r \<noteq> None) (dated_rows lib df)) (rows out)"
proof -
  from preprocess_data_Inr[OF assms] obtain out where
    b: "b = a" and h': "lookup h' b = Some out" and ex: "exec (preprocess_stmts lib) df = (None, out)"
    by blast
  have "list_all2 (\<lambda>r r'. \<exists>x i. year_of lib df r = Some x \<and> np_astype_int lib x = Inr i \<and>
                                cell_of r' ''Year of Study Cleaned'' = Str (str_int i) \<and>
                                set (str_int i) \<subseteq> insert CHR ''-'' decimal_digits \<and>
                                CHR ''.'' \<notin> set (str_int i))
             (parsed_rows lib df) (rows out)"
    by (rule list_all2_mono[OF preprocess_rows[OF ex]])
       (use str_int_chars point_not_digit in \<open>fastforce dest: normalized_cells\<close>)
  then show ?thesis by (simp add: h' parsed_rows_def)
qed

lemma run_years: "fst (preprocess_data table_lib 0 [raw_years]) = Inr 0"
  by (simp add: run_defs table_lib_def raw_years_def reg_row_def)

lemma parsed_years:
  "filter (\<lambda>r. year_of table_lib raw_years r \<noteq> None) (dated_rows table_lib raw_years) =
     [reg_row ''2024-03-01 10:00:00'' ''2'' ''MIT'']"
  by (simp add: dated_rows_def parses_timestamp_def year_of_def cell_of_def table_lib_def
      raw_years_def reg_row_def)

lemma year_2: "year_of table_lib raw_years (reg_row ''2024-03-01 10:00:00'' ''2'' ''MIT'') = Some 2"
  by (simp add: dated_rows_def parses_timestamp_def year_of_def cell_of_def table_lib_def
      raw_years_def reg_row_def)

lemma astype_table: "np_astype_int table_lib x = Inr x"
  by (simp add: table_lib_def)

lemma str_int_2: "str_int 2 = ''2''"
  by (simp add: str_int_def str_nat.simps digit_char_def)

theorem year_label_is_integer_text_witness:
  "lookup [raw_years] 0 = Some raw_years \<and>
   fst (preprocess_data table_lib 0 [raw_years]) = Inr 0 \<and>
   (\<exists>out. lookup (snd (preprocess_data table_lib 0 [raw_years])) 0 = Some out \<and>
      map (\<lambda>r. cell_of r ''Year of Study Cleaned'') (rows out) = [Str ''2''])"
proof -
  have h: "lookup [raw_years] 0 = Some raw_years" by (simp add: lookup_def)
  have e: "preprocess_data table_lib 0 [raw_years] =
             (Inr 0, snd (preprocess_data table_lib 0 [raw_years]))"
    using run_years by (metis prod.collapse)
  from year_label_is_integer_text[OF h e] h show ?thesis
    unfolding parsed_years
    by (auto simp: run_years year_2 str_int_2 list_all2_Cons1 astype_table)
qed

subsection \<open>The filter engine\<close>

lemma setitem_columns:
  "setitem df c vs = Inr df' \<Longrightarrow> set (columns df') = insert c (set (columns df))"
  by (auto simp: setitem_def split: if_splits)

lemma dropna_columns: "dropna cs df = Inr df' \<Longrightarrow> columns df' = columns df"
  by (auto simp: dropna_def split: list.splits)

lemma getitem_columns: "getitem df c = Inr vs \<Longrightarrow> c \<in> set (columns df)"
  by (auto simp: getitem_def split: if_splits)

lemma preprocess_columns:
  assumes ex: "exec (preprocess_stmts lib) df = (None, out)"
  shows "set (columns out) = set (columns df) \<union> {''Registration Date'', ''Year of Study Cleaned''}"
proof -
  from ex obtain df1 df2 df3 df4 df5 where
    s1: "bindE (getitem df ''Created At'') (\<lambda>c. setitem df ''Created At'' (to_datetime lib c)) = Inr df1" and
    s2: "dropna [''Created At''] df1 = Inr df2" and
    s3: "bindE (getitem df2 ''Created At'') (\<lambda>c. bindE (dt_date c) (\<lambda>d.
           setitem df2 ''Registration Date'' d)) = Inr df3" and
    s4: "bindE (getitem df3 ''Year of Study'') (\<lambda>c.
           setitem df3 ''Year of Study Cleaned'' (to_numeric lib c)) = Inr df4" and
    s5: "dropna [''Year of Study Cleaned''] df4 = Inr df5" and
    s6: "bindE (getitem df5 ''Year of Study Cleaned'') (\<lambda>c. bindE (astype_int lib c) (\<lambda>i.
           setitem df5 ''Year of Study Cleaned'' (astype_str lib i))) = Inr out"
    unfolding preprocess_stmts_def exec_None_Cons by auto
  have 1: "set (columns df1) = set (columns df)"
  proof -
    from s1 obtain c where g: "getitem df ''Created At'' = Inr c"
      and st: "setitem df ''Created At'' (to_datetime lib c) = Inr df1"
      by (auto simp: bindE_Inr_iff)
    show ?thesis using setitem_columns[OF st] getitem_columns[OF g] by auto
  qed
  have 2: "columns df2 = columns df1" using s2 by (rule dropna_columns)
  have 3: "set (columns df3) = insert ''Registration Date'' (set (columns df2))"
    using s3 by (auto simp: bindE_Inr_iff dest: setitem_columns)
  have 4: "set (columns df4) = insert ''Year of Study Cleaned'' (set (columns df3))"
    using s4 by (auto simp: bindE_Inr_iff dest: setitem_columns)
  have 5: "columns df5 = columns df4" using s5 by (rule dropna_columns)
  have 6: "set (columns out) = insert ''Year of Study Cleaned'' (set (columns df5))"
    using s6 by (auto simp: bindE_Inr_iff dest: setitem_columns)
  show ?thesis unfolding 6 5 4 3 2 1 by auto
qed

lemma preprocess_dates:
  assumes ex: "exec (preprocess_stmts lib) df = (None, out)" and r: "r \<in> set (rows out)"
  shows "\<exists>d. cell_of r ''Registration Date'' = Date d"
  using all2_rightD[OF preprocess_rows[OF ex] r] by (blast dest: normalized_cells)

lemma traverse_map_Inr: "(\<And>x. x \<in> set xs \<Longrightarrow> f (g x) = Inr (k x)) \<Longrightarrow> traverse f (map g xs) = Inr (map k xs)"
  by (induction xs) auto

lemma and_mask_map: "and_mask (map P xs) (map Q xs) = map (\<lambda>x. P x \<and> Q x) xs"
  by (induction xs) (auto simp: and_mask_def)

lemma boolean_index_map: "boolean_index df (map P (rows df)) = df\<lparr>rows := filter P (rows df)\<rparr>"
proof -
  have "map fst (filter snd (zip xs (map P xs))) = filter P xs" for xs :: "'a row list"
    by (induction xs) auto
  then show ?thesis by (simp add: boolean_index_def)
qed

lemma getitem_present: "c \<in> set (columns df) \<Longrightarrow> getitem df c = Inr (map (\<lambda>r. cell_of r c) (rows df))"
  by (simp add: getitem_def)

text \<open>
  Claim C2. On a normalized record set that has a college column, and for a selection
  whose date range has its two ends, the filter returns the frame with exactly the rows
  whose college is among the selected colleges, whose year label is among the selected
  labels, and whose date lies between the two ends, both included; the rows keep their
  order.
\<close>

theorem filter_is_conjunction:
  assumes "exec (preprocess_stmts lib) raw = (None, df)"
    and "''College Name'' \<in> set (columns df)"
    and "selected_date_range sel = [start_date, end_date]"
  shows "df_filtered df sel =
           Inr (df\<lparr>rows := filter (\<lambda>r. cell_of r ''College Name'' \<in> set (selected_colleges sel) \<and>
                                      cell_of r ''Year of Study Cleaned'' \<in> set (selected_years sel) \<and>
                                      (\<exists>d. cell_of r ''Registration Date'' = Date d \<and>
                                           start_date \<le> d \<and> d \<le> end_date))
                                (rows df)\<rparr>)"
proof -
  have cols: "''Year of Study Cleaned'' \<in> set (columns df)" "''Registration Date'' \<in> set (columns df)"
    using preprocess_columns[OF assms(1)] by auto
  have dates: "\<forall>r \<in> set (rows df). \<exists>d. cell_of r ''Registration Date'' = Date d"
    using preprocess_dates[OF assms(1)] by blast
  have ge: "compare_date (\<ge>) (map (\<lambda>r. cell_of r ''Registration Date'') (rows df)) start_date =
              Inr (map (\<lambda>r. start_date \<le> date_of (cell_of r ''Registration Date'')) (rows df))"
    unfolding compare_date_def
    by (rule traverse_map_Inr) (use dates in \<open>auto simp: date_of_def\<close>)
  have le: "compare_date (\<le>) (map (\<lambda>r. cell_of r ''Registration Date'') (rows df)) end_date =
              Inr (map (\<lambda>r. date_of (cell_of r ''Registration Date'') \<le> end_date) (rows df))"
    unfolding compare_date_def
    by (rule traverse_map_Inr) (use dates in \<open>auto simp: date_of_def\<close>)
  have "df_filtered df sel =
          Inr (df\<lparr>rows := filter (\<lambda>r. ((cell_of r ''College Name'' \<in> set (selected_colleges sel) \<and>
                                      cell_of r ''Year of Study Cleaned'' \<in> set (selected_years sel)) \<and>
                                      start_date \<le> date_of (cell_of r ''Registration Date'')) \<and>
                                      date_of (cell_of r ''Registration Date'') \<le> end_date)
                                (rows df)\<rparr>)"
    by (simp add: df_filtered_def unpack2_def assms(2,3) cols getitem_present bindE_def ge le
        isin_def comp_def and_mask_map boolean_index_map)
  also have "filter (\<lambda>r. ((cell_of r ''College Name'' \<in> set (selected_colleges sel) \<and>
                                      cell_of r ''Year of Study Cleaned'' \<in> set (selected_years sel)) \<and>
                                      start_date \<le> date_of (cell_of r ''Registration Date'')) \<and>
                                      date_of (cell_of r ''Registration Date'') \<le> end_date) (rows df) =
      filter (\<lambda>r. cell_of r ''College Name'' \<in> set (selected_colleges sel) \<and>
                                      cell_of r ''Year of Study Cleaned'' \<in> set (selected_years sel) \<and>
                                      (\<exists>d. cell_of r ''Registration Date'' = Date d \<and>
                                           start_date \<le> d \<and> d \<le> end_date)) (rows df)"
    by (rule filter_cong) (use dates in \<open>auto simp: date_of_def\<close>)
  finally show ?thesis .
qed

lemma str_int_digit: "str_int 2 = ''2''" "str_int 4 = ''4''"
  by (simp_all add: str_int_def str_nat.simps digit_char_def)

lemma norm3: "exec (preprocess_stmts table_lib) raw3 = (None, normalized3)"
  by (simp add: preprocess_stmts_def bindE_def getitem_def setitem_def
    dropna_def to_datetime_def to_numeric_def dt_date_def astype_int_def astype_str_def cell_of_def isna_def
    table_lib_def raw3_def reg_row_def normalized3_def str_int_digit)

theorem filter_is_conjunction_witness:
  "exec (preprocess_stmts table_lib) raw3 = (None, normalized3) \<and>
   ''College Name'' \<in> set (columns normalized3) \<and>
   selected_date_range select3 = [19783, 19787] \<and>
   df_filtered normalized3 select3 = Inr (normalized3\<lparr>rows := [hd (rows normalized3)]\<rparr>)"
proof -
  have c: "''College Name'' \<in> set (columns normalized3)" by (simp add: normalized3_def)
  have r: "selected_date_range select3 = [19783, 19787]" by (simp add: select3_def)
  from filter_is_conjunction[OF norm3 c r] show ?thesis
    by (simp add: norm3 c r) (simp add: normalized3_def select3_def cell_of_def)
qed

text \<open>
  Claim C4 fails on the code. The date input returns a tuple of one date while the user
  has picked only one end of the range, and line 66 unpacks it into two names: a
  \<^verbatim>\<open>ValueError\<close>, outside every handler. No subset is produced.
\<close>

theorem single_date_raises:
  "df_filtered df \<lparr>selected_colleges = cs, selected_years = ys, selected_date_range = [d]\<rparr> =
     Inl (PyExn ''ValueError'' ''not enough values to unpack (expected 2, got 1)'')"
  by (simp add: df_filtered_def unpack2_def bindE_def)

subsection \<open>Errors and the empty result\<close>

lemma empty_rename: "empty (rename_columns f df) = empty df"
  by (simp add: empty_def rename_columns_def)

text \<open>
  Claim C3. With a file uploaded: when parsing returns a table with no rows or no
  columns, the run ends in the error message for empty input; when parsing raises, the
  run ends in an error message whose text ends with the text of the exception; and when
  the filter returns an empty frame, the run ends in a warning, which is not an error
  message. None of the three is an uncaught exception.
\<close>

theorem errors_are_messages:
  assumes "uploaded_file ses = Some bytes"
  shows "(read_csv lib (replace_crlf (py_decode lib bytes)) = Inr df0 \<longrightarrow> empty df0 \<longrightarrow>
            app lib ses = StopError empty_message) \<and>
         (read_csv lib (replace_crlf (py_decode lib bytes)) = Inl e \<longrightarrow>
            app lib ses = StopError (cannot_read e) \<and> (\<exists>p. cannot_read e = p @ exn_text e)) \<and>
         (ingest lib bytes = Inr df \<longrightarrow> bindE (sidebar lib ses df) (df_filtered df) = Inr dff \<longrightarrow>
            empty dff \<longrightarrow>
            app lib ses = StopWarning ''No data matches the current filter settings.'')"
proof (intro conjI impI)
  assume "read_csv lib (replace_crlf (py_decode lib bytes)) = Inr df0" and "empty df0"
  then show "app lib ses = StopError empty_message"
    using assms by (simp add: app_def ingest_def empty_rename)
next
  assume "read_csv lib (replace_crlf (py_decode lib bytes)) = Inl e"
  then show "app lib ses = StopError (cannot_read e)"
    using assms by (simp add: app_def ingest_def)
next
  show "\<exists>p. cannot_read e = p @ exn_text e"
    unfolding cannot_read_def by (metis append.assoc)
next
  assume "ingest lib bytes = Inr df" and "bindE (sidebar lib ses df) (df_filtered df) = Inr dff"
    and "empty dff"
  then show "app lib ses = StopWarning ''No data matches the current filter settings.''"
    using assms by (simp add: app_def)
qed

lemma read_header_only:
  "read_csv table_lib (replace_crlf (py_decode table_lib header_only_csv)) =
     Inr \<lparr>columns = [''Created At'', ''Year of Study'', ''College Name''], rows = []\<rparr>"
  by (simp add: read_csv_def table_lib_def header_only_csv_def sample_csv_def profiles_csv_def
      exported_sample_def bindE_def)

lemma read_garbage:
  "read_csv table_lib (replace_crlf (py_decode table_lib [])) =
     Inl (PyExn ''EmptyDataError'' ''No columns to parse from file'')"
  by (simp add: read_csv_def table_lib_def sample_csv_def profiles_csv_def exported_sample_def bindE_def)

lemma ingest_sample:
  "ingest table_lib sample_csv = Inr ingested_sample"
  by (simp add: ingest_def read_csv_def bindE_def read_field_def na_values_def field_at_def
      rename_columns_def empty_def copy_def lookup_def preprocess_data_def
      preprocess_stmts_def getitem_def setitem_def
      dropna_def to_datetime_def to_numeric_def dt_date_def astype_int_def astype_str_def cell_of_def isna_def
      table_lib_def sample_csv_def exported_sample_def profiles_csv_def ingested_sample_def
      str_int_digit bom_def)

lemma filtered_none:
  "bindE (sidebar table_lib (session_with sample_csv [] [Str ''2''] [19783, 19783]) ingested_sample)
         (df_filtered ingested_sample) =
     Inr (ingested_sample\<lparr>rows := []\<rparr>)"
  by (simp add: sidebar_def df_filtered_def bindE_def getitem_def unpack2_def compare_date_def
      isin_def and_mask_def boolean_index_def series_min_def series_max_def dates_of_def
      session_with_def table_lib_def sort_cells_def isna_def cell_of_def ingested_sample_def)

theorem errors_are_messages_witness:
  "app table_lib (session_with header_only_csv [] [] []) = StopError empty_message \<and>
   app table_lib (session_with [] [] [] []) =
     StopError (cannot_read (PyExn ''EmptyDataError'' ''No columns to parse from file'')) \<and>
   app table_lib (session_with sample_csv [] [Str ''2''] [19783, 19783]) =
     StopWarning ''No data matches the current filter settings.''"
proof -
  have u: "uploaded_file (session_with b cs ys picked) = Some b" for b cs ys picked
    by (simp add: session_with_def)
  have 1: "app table_lib (session_with header_only_csv [] [] []) = StopError empty_message"
    using errors_are_messages[OF u, of table_lib header_only_csv] read_header_only
    by (simp add: empty_def)
  have 2: "app table_lib (session_with [] [] [] []) =
     StopError (cannot_read (PyExn ''EmptyDataError'' ''No columns to parse from file''))"
    using errors_are_messages[OF u, of table_lib "[]"] read_garbage by simp
  have 3: "app table_lib (session_with sample_csv [] [Str ''2''] [19783, 19783]) =
     StopWarning ''No data matches the current filter settings.''"
    using errors_are_messages[OF u, of table_lib sample_csv] ingest_sample filtered_none
    by (simp add: empty_def)
  show ?thesis using 1 2 3 by simp
qed

subsection \<open>Key metrics without a completed profile\<close>

lemma value_counts_Nil: "value_counts lib [] = []"
  by (simp add: value_counts_def counted_def tie_arranged_def)

lemma dropna_present:
  "set cs \<subseteq> set (columns df) \<Longrightarrow>
   dropna cs df = Inr (df\<lparr>rows := filter (\<lambda>r. list_all (\<lambda>c. \<not> isna (cell_of r c)) cs) (rows df)\<rparr>)"
proof -
  assume "set cs \<subseteq> set (columns df)"
  then have "filter (\<lambda>c. c \<notin> set (columns df)) cs = []"
    by (auto simp: filter_empty_conv)
  then show ?thesis by (simp add: dropna_def)
qed

text \<open>
  Claim C10. When the filtered frame is not empty and every row of it lacks a first
  name, a college or a gender, the completed profiles are an empty frame, and
  \<^verbatim>\<open>mode()[0]\<close> on its college column raises \<^verbatim>\<open>KeyError\<close>. Nothing catches it: the run
  ends in that exception, with no third metric and no message.
\<close>

theorem no_completed_profile_raises:
  assumes "\<not> empty dff"
    and "{''First Name'', ''College Name'', ''Gender''} \<subseteq> set (columns dff)"
    and "\<forall>r \<in> set (rows dff). cell_of r ''First Name'' = NaN \<or> cell_of r ''College Name'' = NaN \<or>
                                 cell_of r ''Gender'' = NaN"
  shows "df_completed dff = Inr (dff\<lparr>rows := []\<rparr>) \<and>
         key_metrics lib dff = Inl (PyExn ''KeyError'' ''0'') \<and>
         (uploaded_file ses = Some bytes \<longrightarrow> ingest lib bytes = Inr df \<longrightarrow>
          bindE (sidebar lib ses df) (df_filtered df) = Inr dff \<longrightarrow>
          app lib ses = Uncaught (PyExn ''KeyError'' ''0''))"
proof -
  have "filter (\<lambda>r. list_all (\<lambda>c. \<not> isna (cell_of r c)) [''First Name'', ''College Name'', ''Gender''])
          (rows dff) = []"
    using assms(3) by (auto simp: filter_empty_conv isna_def)
  then have c: "df_completed dff = Inr (dff\<lparr>rows := []\<rparr>)"
    using assms(2) by (simp add: df_completed_def dropna_present)
  have k: "key_metrics lib dff = Inl (PyExn ''KeyError'' ''0'')"
    using assms(2) by (simp add: key_metrics_def c bindE_def getitem_def mode_def value_counts_Nil getitem0_def)
  show ?thesis
    using assms(1) by (simp add: c k app_def)
qed

lemma ingest_profiles: "ingest table_lib profiles_csv = Inr profiles_frame"
  by (simp add: ingest_def read_csv_def bindE_def read_field_def na_values_def field_at_def
      rename_columns_def empty_def copy_def lookup_def preprocess_data_def
      preprocess_stmts_def getitem_def setitem_def
      dropna_def to_datetime_def to_numeric_def dt_date_def astype_int_def astype_str_def cell_of_def isna_def
      table_lib_def sample_csv_def profiles_csv_def header_only_csv_def exported_sample_def
      profiles_frame_def str_int_digit bom_def)

lemma filtered_profiles:
  "bindE (sidebar table_lib (session_with profiles_csv [Str ''MIT''] [Str ''2''] [19783, 19783]) profiles_frame)
         (df_filtered profiles_frame) = Inr profiles_frame"
  by (simp add: sidebar_def df_filtered_def bindE_def getitem_def unpack2_def compare_date_def
      isin_def and_mask_def boolean_index_def series_min_def series_max_def dates_of_def
      session_with_def table_lib_def sort_cells_def isna_def cell_of_def profiles_frame_def)

theorem no_completed_profile_raises_witness:
  "\<not> empty profiles_frame \<and>
   list_all (\<lambda>r. cell_of r ''First Name'' = NaN) (rows profiles_frame) \<and>
   key_metrics table_lib profiles_frame = Inl (PyExn ''KeyError'' ''0'') \<and>
   app table_lib (session_with profiles_csv [Str ''MIT''] [Str ''2''] [19783, 19783]) =
     Uncaught (PyExn ''KeyError'' ''0'')"
proof -
  have 1: "\<not> empty profiles_frame" by (simp add: empty_def profiles_frame_def)
  have 2: "{''First Name'', ''College Name'', ''Gender''} \<subseteq> set (columns profiles_frame)"
    by (simp add: profiles_frame_def)
  have 3: "\<forall>r \<in> set (rows profiles_frame). cell_of r ''First Name'' = NaN \<or>
             cell_of r ''College Name'' = NaN \<or> cell_of r ''Gender'' = NaN"
    by (simp add: profiles_frame_def cell_of_def)
  have 4: "list_all (\<lambda>r. cell_of r ''First Name'' = NaN) (rows profiles_frame)"
    by (simp add: profiles_frame_def cell_of_def)
  have u: "uploaded_file (session_with profiles_csv [Str ''MIT''] [Str ''2''] [19783, 19783]) = Some profiles_csv"
    by (simp add: session_with_def)
  from no_completed_profile_raises[OF 1 2 3, of table_lib
      "session_with profiles_csv [Str ''MIT''] [Str ''2''] [19783, 19783]" profiles_csv profiles_frame]
  show ?thesis
    using 1 4 u ingest_profiles filtered_profiles by simp
qed

subsection \<open>Event explosion\<close>

lemma split_on_nonempty: "split_on c s \<noteq> []"
  by (induction s) (auto split: list.splits)

lemma explode_rows:
  "explode c df = Inr df' \<Longrightarrow> rows df' = concat (map (explode_row c) (rows df))"
  by (auto simp: explode_def split: if_splits)

lemma map_concat_filter:
  assumes "\<And>x. (if P x then map f (e (u x)) else []) = h x"
  shows "map f (concat (map e (map u (filter P xs)))) = concat (map h xs)"
proof (induction xs)
  case Nil
  show ?case by simp
next
  case (Cons x xs)
  show ?case using assms[of x] Cons by (cases "P x") simp_all
qed

lemma empty_field_is_missing: "read_field lib col [] = NaN"
  by (simp add: read_field_def na_values_def)

lemma exploded_rows:
  assumes "events_exploded lib dff = Inr out"
  shows "rows out = concat (map (event_entries lib) (rows dff))"
proof -
  define sp :: "'a cell \<Rightarrow> 'a cell"
    where "sp = (\<lambda>v. case v of Str s \<Rightarrow> StrList (split_on CHR '';'' s) | _ \<Rightarrow> NaN)"
  define st :: "'a cell \<Rightarrow> 'a cell"
    where "st = (\<lambda>v. case v of Str s \<Rightarrow> Str (py_strip lib s) | _ \<Rightarrow> NaN)"
  from assms obtain d1 c1 lists d2 d3 c3 where
    s1: "dropna [''Registered Events''] dff = Inr d1" and
    g1: "getitem d1 ''Registered Events'' = Inr c1" and
    s2: "str_split lib c1 = Inr lists" and
    s3: "setitem d1 ''Registered Events'' lists = Inr d2" and
    s4: "explode ''Registered Events'' d2 = Inr d3" and
    g3: "getitem d3 ''Registered Events'' = Inr c3" and
    s5: "setitem d3 ''Registered Events'' (str_strip lib c3) = Inr out"
    by (auto simp: events_exploded_def bindE_Inr_iff)
  have r1: "rows d1 = filter (\<lambda>r. cell_of r ''Registered Events'' \<noteq> NaN) (rows dff)"
    using dropna_rows[OF s1] by (simp add: isna_def)
  have l: "lists = map (\<lambda>r. sp (cell_of r ''Registered Events'')) (rows d1)"
    using s2 getitem_Inr[OF g1] by (auto simp: str_split_def sp_def comp_def split: if_splits)
  have r2: "rows d2 = map (\<lambda>r. AList.update ''Registered Events'' (sp (cell_of r ''Registered Events'')) r) (rows d1)"
    using setitem_rows[OF s3] by (simp add: l zip_map_self)
  have r3: "rows d3 = concat (map (explode_row ''Registered Events'') (rows d2))"
    using s4 by (rule explode_rows)
  have r4: "rows out = map (\<lambda>r. AList.update ''Registered Events'' (st (cell_of r ''Registered Events'')) r) (rows d3)"
    using setitem_rows[OF s5] getitem_Inr[OF g3] by (simp add: str_strip_def st_def zip_map_self comp_def)
  have point: "(if cell_of r ''Registered Events'' \<noteq> NaN
                then map (\<lambda>r. AList.update ''Registered Events'' (st (cell_of r ''Registered Events'')) r)
                       (explode_row ''Registered Events''
                          (AList.update ''Registered Events'' (sp (cell_of r ''Registered Events'')) r))
                else []) = event_entries lib r" for r :: "'a row"
  proof (cases "cell_of r ''Registered Events''")
    case (Str s)
    obtain x xs where xs: "split_on CHR '';'' s = x # xs"
      using split_on_nonempty[of "CHR '';''" s] by (cases "split_on CHR '';'' s") auto
    show ?thesis
      by (simp add: Str event_entries_def explode_row_def cell_of_update sp_def st_def xs)
  qed (simp_all add: event_entries_def explode_row_def cell_of_update sp_def st_def)
  show ?thesis
    unfolding r4 r3 r2 r1 by (rule map_concat_filter) (rule point)
qed

text \<open>
  Claim C5. When the event explosion returns, its rows are the event entries of the
  filtered records, record by record; and a record whose \<^verbatim>\<open>Registered Events\<close> is missing
  has no entry. An empty field of the uploaded file is read as missing, so a record whose
  field was the empty string has no entry either.
\<close>

theorem missing_events_contribute_nothing:
  assumes "events_exploded lib dff = Inr out"
  shows "rows out = concat (map (event_entries lib) (rows dff)) \<and>
         (\<forall>r. cell_of r ''Registered Events'' = NaN \<or>
               cell_of r ''Registered Events'' = read_field lib col [] \<longrightarrow>
               event_entries lib r = [])"
  using exploded_rows[OF assms]
  by (auto simp: event_entries_def empty_field_is_missing)

lemma explode_events_frame:
  "map_sum id (\<lambda>df. map (\<lambda>r. cell_of r ''Registered Events'') (rows df))
     (events_exploded table_lib events_frame) = Inr [Str ''A'', Str ''B'', Str ''A'']"
  by (simp add: events_exploded_def bindE_def dropna_def getitem_def setitem_def explode_def
      explode_row_def str_split_def str_strip_def ascii_strip_def is_space_def isna_def cell_of_def
      table_lib_def events_frame_def)

theorem missing_events_contribute_nothing_witness:
  "(\<exists>out. events_exploded table_lib events_frame = Inr out \<and>
      map (\<lambda>r. cell_of r ''Registered Events'') (rows out) = [Str ''A'', Str ''B'', Str ''A''] \<and>
      rows out = concat (map (event_entries table_lib) (rows events_frame))) \<and>
   cell_of (rows events_frame ! 1) ''Registered Events'' = NaN \<and>
   event_entries table_lib (rows events_frame ! 1) = []"
proof -
  obtain out where o: "events_exploded table_lib events_frame = Inr out"
    using explode_events_frame by (cases "events_exploded table_lib events_frame") auto
  have n: "cell_of (rows events_frame ! 1) ''Registered Events'' = NaN"
    by (simp add: events_frame_def cell_of_def)
  from missing_events_contribute_nothing[OF o] explode_events_frame o n show ?thesis
    by simp
qed

text \<open>
  A cell that held the empty text itself would give one entry with an empty name;
  \<open>read_field\<close> never yields such a cell from an empty field.
\<close>

lemma empty_text_cell_one_entry:
  "cell_of r ''Registered Events'' = Str [] \<Longrightarrow>
   event_entries lib r = [AList.update ''Registered Events'' (Str (py_strip lib [])) r]"
  by (simp add: event_entries_def)

subsection \<open>Top-N views\<close>

lemma set_tie_arranged: "set (tie_arranged lib s) = set s"
  by (simp add: tie_arranged_def)

lemma length_tie_arranged: "length (tie_arranged lib s) = length s"
  by (simp add: tie_arranged_def)

lemma distinct_map_sort_key:
  assumes "distinct (map g xs)"
  shows "distinct (map g (sort_key f xs))"
proof (rule card_distinct)
  have "card (set (map g (sort_key f xs))) = card (set (map g xs))" by simp
  also have "\<dots> = length (map g xs)" using assms by (rule distinct_card)
  finally show "card (set (map g (sort_key f xs))) = length (map g (sort_key f xs))" by simp
qed

lemma distinct_map_take: "distinct (map g xs) \<Longrightarrow> distinct (map g (take n xs))"
  by (simp add: take_map [symmetric])

lemma distinct_tie_arranged: "distinct (map fst s) \<Longrightarrow> distinct (map fst (tie_arranged lib s))"
  unfolding tie_arranged_def by (rule distinct_map_sort_key)

lemma length_nlargest: "length (nlargest lib n s) \<le> n"
  by (simp add: nlargest_def)

lemma sorted_by_count:
  "sorted_wrt (\<lambda>a b. snd b \<le> snd a) (sort_key (\<lambda>(v, c). - int c) (s :: ('a \<times> nat) list))"
proof -
  have "sorted (map (\<lambda>(v, c). - int c) (sort_key (\<lambda>(v, c). - int c) s))"
    by (rule sorted_sort_key)
  then show ?thesis
    by (simp add: sorted_map case_prod_beta)
qed

lemma sorted_nlargest: "sorted_wrt (\<lambda>a b. snd b \<le> snd a) (nlargest lib n s)"
  unfolding nlargest_def by (rule sorted_wrt_take) (rule sorted_by_count)

lemma nlargest_top:
  assumes "p \<in> set (nlargest lib n s)" and "q \<in> set s" and "q \<notin> set (nlargest lib n s)"
  shows "snd q \<le> snd p"
proof -
  let ?xs = "sort_key (\<lambda>(v, c). - int c) (tie_arranged lib s)"
  have "sorted_wrt (\<lambda>a b. snd b \<le> snd a) (take n ?xs @ drop n ?xs)"
    using sorted_by_count[of "tie_arranged lib s"] by simp
  then have ord: "\<forall>x \<in> set (take n ?xs). \<forall>y \<in> set (drop n ?xs). snd y \<le> snd x"
    unfolding sorted_wrt_append by blast
  have "set (take n ?xs) \<union> set (drop n ?xs) = set s"
    by (metis append_take_drop_id set_append set_sort set_tie_arranged)
  then have "q \<in> set (drop n ?xs)" using assms(2,3) by (auto simp: nlargest_def)
  then show ?thesis
    using ord assms(1) unfolding nlargest_def by blast
qed

lemma nlargest_subset: "set (nlargest lib n s) \<subseteq> set s"
proof -
  have "set (nlargest lib n s) \<subseteq> set (sort_key (\<lambda>(v, c). - int c) (tie_arranged lib s))"
    unfolding nlargest_def by (rule set_take_subset)
  then show ?thesis by (simp add: set_tie_arranged)
qed

lemma nlargest_distinct: "distinct (map fst s) \<Longrightarrow> distinct (map fst (nlargest lib n s))"
  unfolding nlargest_def
  by (intro distinct_map_take distinct_map_sort_key distinct_tie_arranged)

lemma filter_take: "\<exists>m. filter P (take n xs) = take m (filter P xs)"
proof (induction xs arbitrary: n)
  case Nil
  show ?case by simp
next
  case (Cons x xs)
  show ?case
  proof (cases n)
    case 0
    then show ?thesis by (intro exI[of _ 0]) simp
  next
    case (Suc k)
    from Cons[of k] obtain m where m: "filter P (take k xs) = take m (filter P xs)" by blast
    show ?thesis
    proof (cases "P x")
      case True
      then show ?thesis using m Suc by (intro exI[of _ "Suc m"]) simp
    next
      case False
      then show ?thesis using m Suc by (intro exI[of _ m]) simp
    qed
  qed
qed

lemma filter_count_sort:
  "filter (\<lambda>p. snd p = k) (sort_key (\<lambda>(v, c). - int c) (s :: ('a \<times> nat) list)) = filter (\<lambda>p. snd p = k) s"
proof -
  have "filter (\<lambda>p. (\<lambda>(v, c). - int c) p = - int k) (sort_key (\<lambda>(v, c). - int c) s) =
        filter (\<lambda>p. (\<lambda>(v, c). - int c) p = - int k) s"
    by (rule sort_key_stable)
  moreover have "(\<lambda>p :: 'a \<times> nat. (\<lambda>(v, c). - int c) p = - int k) = (\<lambda>p. snd p = k)"
    by (auto simp: fun_eq_iff)
  ultimately show ?thesis by simp
qed

lemma nlargest_ties:
  "\<exists>m. filter (\<lambda>p. snd p = k) (nlargest lib n s) = take m (filter (\<lambda>p. snd p = k) (tie_arranged lib s))"
proof -
  obtain m where "filter (\<lambda>p. snd p = k) (take n (sort_key (\<lambda>(v, c). - int c) (tie_arranged lib s))) =
                  take m (filter (\<lambda>p. snd p = k) (sort_key (\<lambda>(v, c). - int c) (tie_arranged lib s)))"
    using filter_take by blast
  then show ?thesis
    unfolding nlargest_def filter_count_sort by blast
qed

lemma set_unique: "set (unique xs) = set xs"
  by (induction xs rule: unique.induct) auto

lemma distinct_unique: "distinct (unique xs)"
  by (induction xs rule: unique.induct) (auto simp: set_unique)

lemma value_counts_set:
  "set (value_counts lib col) = (\<lambda>v. (v, count_list col v)) ` {v \<in> set col. v \<noteq> NaN}"
  by (auto simp: value_counts_def counted_def set_tie_arranged set_unique isna_def)

lemma value_counts_distinct: "distinct (map fst (value_counts lib col))"
  unfolding value_counts_def
  by (intro distinct_map_sort_key distinct_tie_arranged) (simp add: counted_def comp_def distinct_unique)

lemma length_value_counts: "length (value_counts lib col) = card {v \<in> set col. v \<noteq> NaN}"
proof -
  have "length (value_counts lib col) = length (map fst (value_counts lib col))" by simp
  also have "\<dots> = card (set (map fst (value_counts lib col)))"
    using value_counts_distinct[of lib col] by (simp only: distinct_card)
  also have "set (map fst (value_counts lib col)) = {v \<in> set col. v \<noteq> NaN}"
    by (auto simp: value_counts_set image_iff)
  finally show ?thesis .
qed

lemma top_ten_nlargest: "top_ten_of lib col (nlargest lib 10 (value_counts lib col))"
proof -
  let ?top = "nlargest lib 10 (value_counts lib col)"
  have sub: "set ?top \<subseteq> (\<lambda>v. (v, count_list col v)) ` {v \<in> set col. v \<noteq> NaN}"
    using nlargest_subset[of lib 10 "value_counts lib col"] by (simp add: value_counts_set)
  have 1: "length ?top = min 10 (card {v \<in> set col. v \<noteq> NaN})"
    by (simp add: nlargest_def length_tie_arranged length_value_counts min.commute)
  have 2: "\<forall>p \<in> set ?top. fst p \<in> set col \<and> fst p \<noteq> NaN \<and> snd p = count_list col (fst p)"
    using sub by auto
  have 3: "\<forall>v \<in> set col. v \<noteq> NaN \<longrightarrow> v \<notin> fst ` set ?top \<longrightarrow>
             (\<forall>p \<in> set ?top. count_list col v \<le> snd p)"
  proof (intro ballI impI)
    fix v p assume v: "v \<in> set col" "v \<noteq> NaN" "v \<notin> fst ` set ?top" and p: "p \<in> set ?top"
    have "(v, count_list col v) \<in> set (value_counts lib col)"
      using v by (simp add: value_counts_set)
    moreover have "(v, count_list col v) \<notin> set ?top"
      using v(3) by force
    ultimately show "count_list col v \<le> snd p"
      using nlargest_top[OF p] by fastforce
  qed
  have 4: "\<forall>k. \<exists>m. filter (\<lambda>p. snd p = k) ?top =
               take m (filter (\<lambda>p. snd p = k) (tie_arranged lib (value_counts lib col)))"
    using nlargest_ties by blast
  show ?thesis
    unfolding top_ten_of_def
    using length_nlargest[of lib 10 "value_counts lib col"] 1 sorted_nlargest[of lib 10 "value_counts lib col"]
      nlargest_distinct[OF value_counts_distinct, of lib 10 lib col] 2 3 4
    by blast
qed

lemma boolean_index_rows: "rows (boolean_index df (map P (rows df))) = filter P (rows df)"
  by (simp add: boolean_index_map)

lemma boolean_index_columns: "columns (boolean_index df m) = columns df"
  by (simp add: boolean_index_def)

text \<open>
  Claim C8. Each of the three top-N views returns whenever the frame has the columns it
  reads, and what it returns is a top ten of its column: at most ten entries, counts in
  descending order, the most frequent values with their counts, and entries of equal
  count in the one order the library gives them. A view is a function of the library
  and the frame, so the same input gives the same output.
\<close>

theorem top_views_at_most_ten_descending:
  "(''College Name'' \<in> set (columns dfc) \<longrightarrow>
      (\<exists>res. college_counts lib dfc = Inr res \<and>
             top_ten_of lib (map (\<lambda>r. cell_of r ''College Name'') (rows dfc)) res)) \<and>
   (''Degree'' \<in> set (columns dfc) \<longrightarrow>
      (\<exists>res. degree_counts lib dfc = Inr res \<and>
             top_ten_of lib (map (\<lambda>r. cell_of r ''Degree'') (rows dfc)) res)) \<and>
   (ev \<noteq> [] \<and> ''Registered Events'' \<in> set (columns exploded) \<and>
    ''College Name'' \<in> set (columns exploded) \<longrightarrow>
      (\<exists>res. college_interest lib exploded ev = Inr (Some res) \<and>
             top_ten_of lib (map (\<lambda>r. cell_of r ''College Name'')
                              (filter (\<lambda>r. cell_of r ''Registered Events'' = Str ev) (rows exploded)))
               res))"
proof (intro conjI impI)
  assume "''College Name'' \<in> set (columns dfc)"
  then show "\<exists>res. college_counts lib dfc = Inr res \<and>
             top_ten_of lib (map (\<lambda>r. cell_of r ''College Name'') (rows dfc)) res"
    by (simp add: college_counts_def getitem_present bindE_def top_ten_nlargest)
next
  assume "''Degree'' \<in> set (columns dfc)"
  then show "\<exists>res. degree_counts lib dfc = Inr res \<and>
             top_ten_of lib (map (\<lambda>r. cell_of r ''Degree'') (rows dfc)) res"
    by (simp add: degree_counts_def getitem_present bindE_def top_ten_nlargest)
next
  assume a: "ev \<noteq> [] \<and> ''Registered Events'' \<in> set (columns exploded) \<and>
    ''College Name'' \<in> set (columns exploded)"
  have "getitem (boolean_index exploded (map (\<lambda>r. cell_of r ''Registered Events'' = Str ev) (rows exploded)))
          ''College Name'' =
        Inr (map (\<lambda>r. cell_of r ''College Name'')
               (filter (\<lambda>r. cell_of r ''Registered Events'' = Str ev) (rows exploded)))"
    using a by (simp add: getitem_def boolean_index_columns boolean_index_rows)
  then show "\<exists>res. college_interest lib exploded ev = Inr (Some res) \<and>
             top_ten_of lib (map (\<lambda>r. cell_of r ''College Name'')
                              (filter (\<lambda>r. cell_of r ''Registered Events'' = Str ev) (rows exploded)))
               res"
    using a by (simp add: college_interest_def getitem_present bindE_def comp_def top_ten_nlargest)
qed

lemmas view_defs = college_counts_def degree_counts_def college_interest_def bindE_def getitem_def
  boolean_index_def nlargest_def value_counts_def counted_def tie_arranged_def isna_def cell_of_def
  views_frame_def view_row_def table_lib_def

lemma college_counts_views:
  "college_counts table_lib views_frame =
     Inr [(Str ''c05'', 2), (Str ''c01'', 1), (Str ''c02'', 1), (Str ''c03'', 1), (Str ''c04'', 1),
          (Str ''c06'', 1), (Str ''c07'', 1), (Str ''c08'', 1), (Str ''c09'', 1), (Str ''c10'', 1)]"
  by (simp add: view_defs)

lemma degree_counts_views:
  "degree_counts table_lib views_frame = Inr [(Str ''CSE'', 7), (Str ''ECE'', 6)]"
  by (simp add: view_defs)

lemma college_interest_views:
  "college_interest table_lib views_frame ''A'' =
     Inr (Some [(Str ''c01'', 1), (Str ''c02'', 1), (Str ''c03'', 1), (Str ''c05'', 1)])"
  by (simp add: view_defs)

theorem top_views_at_most_ten_descending_witness:
  "college_counts table_lib views_frame =
     Inr [(Str ''c05'', 2), (Str ''c01'', 1), (Str ''c02'', 1), (Str ''c03'', 1), (Str ''c04'', 1),
          (Str ''c06'', 1), (Str ''c07'', 1), (Str ''c08'', 1), (Str ''c09'', 1), (Str ''c10'', 1)] \<and>
   top_ten_of table_lib (map (\<lambda>r. cell_of r ''College Name'') (rows views_frame))
     [(Str ''c05'', 2), (Str ''c01'', 1), (Str ''c02'', 1), (Str ''c03'', 1), (Str ''c04'', 1),
      (Str ''c06'', 1), (Str ''c07'', 1), (Str ''c08'', 1), (Str ''c09'', 1), (Str ''c10'', 1)] \<and>
   degree_counts table_lib views_frame = Inr [(Str ''CSE'', 7), (Str ''ECE'', 6)] \<and>
   top_ten_of table_lib (map (\<lambda>r. cell_of r ''Degree'') (rows views_frame))
     [(Str ''CSE'', 7), (Str ''ECE'', 6)] \<and>
   college_interest table_lib views_frame ''A'' =
     Inr (Some [(Str ''c01'', 1), (Str ''c02'', 1), (Str ''c03'', 1), (Str ''c05'', 1)]) \<and>
   top_ten_of table_lib
     (map (\<lambda>r. cell_of r ''College Name'')
        (filter (\<lambda>r. cell_of r ''Registered Events'' = Str ''A'') (rows views_frame)))
     [(Str ''c01'', 1), (Str ''c02'', 1), (Str ''c03'', 1), (Str ''c05'', 1)]"
proof -
  have c: "''College Name'' \<in> set (columns views_frame)" "''Degree'' \<in> set (columns views_frame)"
    "''Registered Events'' \<in> set (columns views_frame)"
    by (simp_all add: views_frame_def)
  have e: "''A'' \<noteq> []" by simp
  from top_views_at_most_ten_descending[of views_frame table_lib "''A''" views_frame]
  show ?thesis
    using c e by (simp add: college_counts_views degree_counts_views college_interest_views)
qed

subsection \<open>Normalization under the cache\<close>

lemma lookup_append: "lookup (h @ [df]) c = (if c = length h then Some df else lookup h c)"
  by (auto simp: lookup_def nth_append)

lemma lookup_SomeD: "lookup h a = Some df \<Longrightarrow> a < length h"
  by (simp add: lookup_def split: if_splits)

lemma cache_okD: "cache_ok lib cache \<Longrightarrow> map_of cache df = Some out \<Longrightarrow> exec (preprocess_stmts lib) df = (None, out)"
  by (auto simp: cache_ok_def dest!: map_of_SomeD)

lemma cached_call_cases:
  assumes "lookup h a = Some df"
    and "preprocess_data_cached lib a (cache, h) = (Inr b, cache1, h1)"
  shows "(\<exists>out. map_of cache df = Some out \<and> b = length h \<and> cache1 = cache \<and> h1 = h @ [out]) \<or>
         (\<exists>out. map_of cache df = None \<and> b = a \<and> cache1 = (df, out) # cache \<and> h1 = h[a := out] \<and>
                exec (preprocess_stmts lib) df = (None, out))"
  using assms lookup_SomeD[OF assms(1)]
  by (auto simp: preprocess_data_cached_def preprocess_data_def lookup_def
      split: option.splits prod.splits sum.splits if_splits)

text \<open>
  Claim C7, as amended. With a store that holds results of the function: a call that
  returns gives the frame that the body computes from the contents of its argument,
  and so the same output on every call with that input; the result is then stored; and
  every call answered from the store, as is every later call with that input, returns
  a new object of those contents and changes no object, the table passed to it
  included.
\<close>

theorem cached_preprocess_same_output:
  assumes "cache_ok lib cache"
    and "lookup h a = Some df"
    and "preprocess_data_cached lib a (cache, h) = (Inr b, cache1, h1)"
  shows "\<exists>out. lookup h1 b = Some out \<and> exec (preprocess_stmts lib) df = (None, out) \<and>
           cache_ok lib cache1 \<and>
           (map_of cache df \<noteq> None \<longrightarrow> cache1 = cache \<and> h1 = h @ [out]) \<and>
           (\<forall>a'. lookup h1 a' = Some df \<longrightarrow>
              preprocess_data_cached lib a' (cache1, h1) = (Inr (length h1), cache1, h1 @ [out]))"
proof -
  from cached_call_cases[OF assms(2,3)] show ?thesis
  proof (elim disjE exE conjE)
    fix out assume hit: "map_of cache df = Some out" and b: "b = length h"
      and c1: "cache1 = cache" and h1: "h1 = h @ [out]"
    have ex: "exec (preprocess_stmts lib) df = (None, out)"
      using assms(1) hit by (rule cache_okD)
    have later: "preprocess_data_cached lib a' (cache1, h1) = (Inr (length h1), cache1, h1 @ [out])"
      if "lookup h1 a' = Some df" for a'
      using that hit by (simp add: preprocess_data_cached_def c1)
    show ?thesis
      using ex assms(1) later by (intro exI[of _ out]) (simp add: b c1 h1 lookup_append hit)
  next
    fix out assume miss: "map_of cache df = None" and b: "b = a"
      and c1: "cache1 = (df, out) # cache" and h1: "h1 = h[a := out]"
      and ex: "exec (preprocess_stmts lib) df = (None, out)"
    have ok1: "cache_ok lib cache1"
      using assms(1) ex by (simp add: cache_ok_def c1)
    have lk: "lookup h1 b = Some out"
      using lookup_SomeD[OF assms(2)] by (simp add: lookup_def b h1)
    have later: "preprocess_data_cached lib a' (cache1, h1) = (Inr (length h1), cache1, h1 @ [out])"
      if "lookup h1 a' = Some df" for a'
      using that by (simp add: preprocess_data_cached_def c1)
    show ?thesis
      using ex ok1 lk later miss by (intro exI[of _ out]) simp
  qed
qed

lemma first_call:
  "preprocess_data_cached table_lib 1 ([], [raw3, raw3]) =
     (Inr 1, [(raw3, normalized3)], [raw3, normalized3])"
  by (simp add: preprocess_data_cached_def preprocess_data_def lookup_def norm3)

theorem cached_preprocess_same_output_witness:
  "cache_ok table_lib [] \<and>
   lookup [raw3, raw3] 1 = Some raw3 \<and>
   preprocess_data_cached table_lib 1 ([], [raw3, raw3]) =
     (Inr 1, [(raw3, normalized3)], [raw3, normalized3]) \<and>
   lookup [raw3, normalized3] 1 = Some normalized3 \<and>
   exec (preprocess_stmts table_lib) raw3 = (None, normalized3) \<and>
   lookup [raw3, normalized3] 0 = Some raw3 \<and>
   preprocess_data_cached table_lib 0 ([(raw3, normalized3)], [raw3, normalized3]) =
     (Inr 2, [(raw3, normalized3)], [raw3, normalized3, normalized3])"
proof -
  have ok: "cache_ok table_lib []" by (simp add: cache_ok_def)
  have arg: "lookup [raw3, raw3] 1 = Some raw3" by (simp add: lookup_def)
  have l0: "lookup [raw3, normalized3] 0 = Some raw3" by (simp add: lookup_def)
  from cached_preprocess_same_output[OF ok arg first_call] l0
  show ?thesis
    using ok arg first_call by (auto simp: lookup_def)
qed

text \<open>
  Claim C7 as the specification states it fails on the call that computes the result:
  with nothing stored, the frame at the address passed is not what it was. On the
  four-row table it has lost two rows.
\<close>

theorem first_call_modifies_argument:
  "lookup (snd (snd (preprocess_data_cached table_lib 0 ([], [raw3])))) 0 \<noteq> lookup [raw3] 0"
proof -
  have "preprocess_data_cached table_lib 0 ([], [raw3]) = (Inr 0, [(raw3, normalized3)], [normalized3])"
    by (simp add: preprocess_data_cached_def preprocess_data_def lookup_def norm3)
  moreover have "length (rows normalized3) \<noteq> length (rows raw3)"
    by (simp add: normalized3_def raw3_def)
  ultimately show ?thesis
    by (auto simp: lookup_def)
qed

subsection \<open>Export and re-ingestion\<close>

text \<open>The plain reading of what the writer wrote: field by field, line by line.\<close>

lemma scan_plain:
  assumes "\<forall>ch \<in> set t. ch \<noteq> CHR '','' \<and> ch \<noteq> CHR 0x22 \<and> ch \<noteq> CHR 0x0A"
    and "s = FieldStart \<or> s = InPlain" and "c = CHR '','' \<or> c = CHR 0x0A"
  shows "csv_scan s fld rcd (t @ c # cs) = after_field (fld @ t) rcd c cs"
  using assms
proof (induction t arbitrary: s fld)
  case Nil
  then show ?case by (auto simp: after_field_def)
next
  case (Cons a t)
  have "csv_scan s fld rcd ((a # t) @ c # cs) = csv_scan InPlain (fld @ [a]) rcd (t @ c # cs)"
    using Cons.prems by auto
  also have "\<dots> = after_field ((fld @ [a]) @ t) rcd c cs"
    using Cons.prems by (intro Cons.IH) auto
  finally show ?case by simp
qed

lemma scan_quoted:
  assumes "c = CHR '','' \<or> c = CHR 0x0A"
  shows "csv_scan InQuoted fld rcd (csv_escape t @ CHR 0x22 # c # cs) = after_field (fld @ t) rcd c cs"
  using assms
proof (induction t arbitrary: fld)
  case Nil
  then show ?case by (auto simp: after_field_def csv_escape_def)
next
  case (Cons a t)
  have e: "csv_escape (a # t) = (if a = CHR 0x22 then [a, a] else [a]) @ csv_escape t"
    by (simp add: csv_escape_def)
  have "csv_scan InQuoted fld rcd (csv_escape (a # t) @ CHR 0x22 # c # cs) =
        csv_scan InQuoted (fld @ [a]) rcd (csv_escape t @ CHR 0x22 # c # cs)"
    by (simp add: e)
  also have "\<dots> = after_field ((fld @ [a]) @ t) rcd c cs"
    using Cons.prems by (rule Cons.IH)
  finally show ?case by simp
qed

lemma scan_field:
  assumes "c = CHR '','' \<or> c = CHR 0x0A"
  shows "csv_scan FieldStart [] rcd (csv_quote lib t @ c # cs) = after_field t rcd c cs"
proof (cases "\<exists>ch \<in> set t. csv_special lib ch")
  case True
  then have "csv_scan FieldStart [] rcd (csv_quote lib t @ c # cs) =
             csv_scan InQuoted [] rcd (csv_escape t @ CHR 0x22 # c # cs)"
    by (simp add: csv_quote_def)
  then show ?thesis using scan_quoted[OF assms, of "[]" rcd t cs] by simp
next
  case False
  then have p: "\<forall>ch \<in> set t. ch \<noteq> CHR '','' \<and> ch \<noteq> CHR 0x22 \<and> ch \<noteq> CHR 0x0A"
    by (auto simp: csv_special_def)
  from False have "csv_quote lib t = t" by (simp add: csv_quote_def)
  then show ?thesis using scan_plain[OF p _ assms, of FieldStart "[]" rcd cs] by simp
qed

lemma scan_fields:
  "ts \<noteq> [] \<Longrightarrow>
   csv_scan FieldStart [] rcd (join '','' (map (csv_quote lib) ts) @ CHR 0x0A # cs) =
     (rcd @ ts) # csv_scan FieldStart [] [] cs"
proof (induction ts arbitrary: rcd rule: induct_list012)
  case 1
  then show ?case by simp
next
  case (2 x)
  show ?case using scan_field[of "CHR 0x0A" rcd lib x cs] by (simp add: after_field_def)
next
  case (3 x y zs)
  have "csv_scan FieldStart [] rcd (join '','' (map (csv_quote lib) (x # y # zs)) @ CHR 0x0A # cs) =
        csv_scan FieldStart [] rcd (csv_quote lib x @ CHR '','' #
          (join '','' (map (csv_quote lib) (y # zs)) @ CHR 0x0A # cs))"
    by simp
  also have "\<dots> = csv_scan FieldStart [] (rcd @ [x])
                    (join '','' (map (csv_quote lib) (y # zs)) @ CHR 0x0A # cs)"
    using scan_field[of "CHR '',''" rcd lib x] by (simp add: after_field_def)
  also have "\<dots> = ((rcd @ [x]) @ y # zs) # csv_scan FieldStart [] [] cs"
    by (rule "3.IH"(2)) simp
  finally show ?case by simp
qed

lemma csv_quote_Nil: "csv_quote lib t = [] \<longleftrightarrow> t = []"
  by (auto simp: csv_quote_def)

lemma scan_line:
  assumes "ts \<noteq> []"
  shows "csv_scan FieldStart [] [] (csv_line (map (csv_quote lib) ts) @ cs) =
           ts # csv_scan FieldStart [] [] cs"
proof (cases "ts = [[]]")
  case True
  then show ?thesis by (simp add: csv_line_def csv_quote_def)
next
  case False
  then have "map (csv_quote lib) ts \<noteq> [[]]"
    by (cases ts) (auto simp: csv_quote_Nil)
  then have "csv_line (map (csv_quote lib) ts) = join '','' (map (csv_quote lib) ts) @ [CHR 0x0A]"
    by (auto simp: csv_line_def split: list.splits)
  then show ?thesis using scan_fields[OF assms, of "[]" lib cs] by simp
qed

lemma scan_lines:
  "\<forall>ts \<in> set tss. ts \<noteq> [] \<Longrightarrow>
   csv_scan FieldStart [] [] (concat (map (\<lambda>ts. csv_line (map (csv_quote lib) ts)) tss)) = tss"
  by (induction tss) (simp_all add: scan_line)

lemma to_csv_lines:
  "to_csv lib df =
     concat (map (\<lambda>ts. csv_line (map (csv_quote lib) ts)) (columns df # exported_texts lib df))"
  by (simp add: to_csv_def exported_texts_def render_cell_def comp_def)

lemma csv_records_to_csv:
  assumes "columns df \<noteq> []"
  shows "csv_records (to_csv lib df) = columns df # exported_texts lib df"
  unfolding csv_records_def to_csv_lines
  by (rule scan_lines) (use assms in \<open>auto simp: exported_texts_def\<close>)

text \<open>The export holds a carriage return only where a name or a cell text does.\<close>

lemma set_join: "set (join sep xs) \<subseteq> set sep \<union> \<Union> (set ` set xs)"
  by (induction sep xs rule: join.induct) auto

lemma set_csv_quote: "set (csv_quote lib t) \<subseteq> insert (CHR 0x22) (set t)"
  by (auto simp: csv_quote_def csv_escape_def split: if_splits)

lemma set_csv_line:
  "set (csv_line (map (csv_quote lib) ts)) \<subseteq>
     {CHR 0x22, CHR '','', CHR 0x0A} \<union> \<Union> (set ` set ts)"
proof -
  have "set (join '','' (map (csv_quote lib) ts)) \<subseteq> {CHR 0x22, CHR '',''} \<union> \<Union> (set ` set ts)"
    using set_join[of "'',''" "map (csv_quote lib) ts"] set_csv_quote[of lib] by fastforce
  then show ?thesis
    by (auto simp: csv_line_def split: list.splits)
qed

lemma to_csv_no_cr:
  assumes "\<forall>c \<in> set (columns df). CHR 0x0D \<notin> set c"
    and "\<forall>r \<in> set (rows df). \<forall>c \<in> set (columns df). CHR 0x0D \<notin> set (cell_text lib (cell_of r c))"
  shows "CHR 0x0D \<notin> set (to_csv lib df)"
proof
  assume "CHR 0x0D \<in> set (to_csv lib df)"
  then obtain ts where ts: "ts \<in> set (columns df # exported_texts lib df)"
    and "CHR 0x0D \<in> set (csv_line (map (csv_quote lib) ts))"
    by (auto simp: to_csv_lines)
  then have "CHR 0x0D \<in> \<Union> (set ` set ts)"
    using set_csv_line[of lib ts] by auto
  then show False
    using ts assms by (auto simp: exported_texts_def)
qed

lemma replace_crlf_id: "CHR 0x0D \<notin> set s \<Longrightarrow> replace_crlf s = s"
  by (induction s rule: replace_crlf.induct) auto

text \<open>An integer is not printed as a marker of a missing value.\<close>

lemma str_nat_not_Nil: "str_nat n \<noteq> []"
proof (cases "n < 10")
  case True
  then show ?thesis by (simp add: str_nat.simps [of n])
next
  case False
  then show ?thesis by (simp add: str_nat.simps [of n])
qed

lemma str_int_not_na: "str_int i \<notin> set na_values"
proof
  assume a: "str_int i \<in> set na_values"
  have "str_int i \<noteq> []"
    by (simp add: str_int_def str_nat_not_Nil)
  have na: "\<forall>t \<in> set na_values. t = [] \<or> (\<exists>ch \<in> set t. ch \<notin> insert CHR ''-'' decimal_digits)"
    by (simp add: na_values_def decimal_digits_def)
  with a \<open>str_int i \<noteq> []\<close>
  have "\<exists>ch \<in> set (str_int i). ch \<notin> insert CHR ''-'' decimal_digits"
    by blast
  then show False using str_int_chars[of i] by blast
qed

text \<open>The sample: what the one-row table is exported as, and what is read back.\<close>

lemma export_sample: "to_csv table_lib ingested_sample = exported_sample"
  by (simp add: to_csv_def csv_line_def render_cell_def cell_text_def csv_quote_def
      csv_special_def cell_of_def ingested_sample_def table_lib_def str_int_digit
      exported_sample_def)

lemma reread_sample: "reingest table_lib exported_sample = Inr reread_sample"
  by (simp add: reingest_def read_csv_def bindE_def read_field_def na_values_def field_at_def
      rename_columns_def table_lib_def sample_csv_def exported_sample_def profiles_csv_def
      reread_sample_def bom_def)

lemma filter_sample:
  "df_filtered ingested_sample
     \<lparr>selected_colleges = [Str ''MIT''], selected_years = [Str ''2''],
      selected_date_range = [19783, 19783]\<rparr> = Inr ingested_sample"
  by (simp add: df_filtered_def bindE_def getitem_def unpack2_def compare_date_def
      isin_def and_mask_def boolean_index_def cell_of_def ingested_sample_def)

text \<open>
  The round trip of claim C9 fails on the filtered set of the one-row sample: the year
  label is the text \<^verbatim>\<open>2\<close> before the export and the integer 2 after re-ingestion, and
  the timestamp comes back as text.
\<close>

theorem export_round_trip_changes_values:
  "df_filtered ingested_sample
     \<lparr>selected_colleges = [Str ''MIT''], selected_years = [Str ''2''],
      selected_date_range = [19783, 19783]\<rparr> = Inr ingested_sample \<and>
   reingest table_lib (to_csv table_lib ingested_sample) = Inr reread_sample \<and>
   map (\<lambda>r. cell_of r ''Year of Study Cleaned'') (rows ingested_sample) = [Str ''2''] \<and>
   map (\<lambda>r. cell_of r ''Year of Study Cleaned'') (rows reread_sample) = [IntV 2] \<and>
   map (\<lambda>r. cell_of r ''Created At'') (rows ingested_sample) = [Timestamp 19783 36000000000000] \<and>
   map (\<lambda>r. cell_of r ''Created At'') (rows reread_sample) = [Str ''2024-03-01 10:00:00+00:00'']"
  by (simp add: filter_sample export_sample reread_sample)
     (simp add: ingested_sample_def reread_sample_def cell_of_def)

lemma map_index: "map (\<lambda>j. g (xs ! j)) [0..<length xs] = map g xs"
proof -
  have "map (\<lambda>j. g (xs ! j)) [0..<length xs] = map g (map ((!) xs) [0..<length xs])"
    by (simp add: comp_def)
  then show ?thesis by (simp only: map_nth)
qed

lemma cell_of_tabulated:
  "c \<in> set cs \<Longrightarrow> cell_of (map (\<lambda>c. (c, f c)) cs) c = f c"
  by (induction cs) (auto simp: cell_of_def)

text \<open>Ingestion of records that are the exported texts of a frame.\<close>

lemma read_exported_texts:
  assumes tok: "pd_tokenize lib content = Inr (columns dff, exported_texts lib dff)"
  shows "read_csv lib content =
           Inr \<lparr>columns = columns dff,
                rows = map (\<lambda>r. map (\<lambda>c. (c, reread_cell lib dff c r)) (columns dff)) (rows dff)\<rparr>"
proof -
  let ?h = "columns dff"
  define T where "T = (\<lambda>r. map (\<lambda>c. cell_text lib (cell_of r c)) ?h)"
  define F where "F = (\<lambda>fs. map (\<lambda>j. (?h ! j,
                         read_field lib (map (\<lambda>f. field_at f j) (exported_texts lib dff))
                           (field_at fs j))) [0..<length ?h])"
  define G where "G = (\<lambda>r. map (\<lambda>c. (c, reread_cell lib dff c r)) ?h)"
  have et: "exported_texts lib dff = map T (rows dff)"
    by (simp add: exported_texts_def T_def)
  have ctx: "map (\<lambda>f. field_at f j) (exported_texts lib dff) = column_texts lib dff (?h ! j)"
    if "j < length ?h" for j
    using that by (simp add: exported_texts_def column_texts_def field_at_def comp_def)
  have row: "F (T r) = G r" for r
  proof -
    have "F (T r) = map (\<lambda>j. (\<lambda>c. (c, reread_cell lib dff c r)) (?h ! j)) [0..<length ?h]"
      unfolding F_def
    proof (rule map_cong[OF refl])
      fix j assume "j \<in> set [0..<length ?h]"
      then have j: "j < length ?h" by simp
      have f: "field_at (T r) j = cell_text lib (cell_of r (?h ! j))"
        using j by (simp add: field_at_def T_def)
      show "(?h ! j, read_field lib (map (\<lambda>f. field_at f j) (exported_texts lib dff))
                               (field_at (T r) j)) =
            (\<lambda>c. (c, reread_cell lib dff c r)) (?h ! j)"
        by (simp only: ctx[OF j] f reread_cell_def)
    qed
    then show ?thesis
      unfolding G_def using map_index[of "\<lambda>c. (c, reread_cell lib dff c r)" ?h] by simp
  qed
  have rd: "read_csv lib content = Inr \<lparr>columns = ?h, rows = map F (exported_texts lib dff)\<rparr>"
    by (simp add: read_csv_def tok bindE_def F_def)
  have "map F (exported_texts lib dff) = map F (map T (rows dff))"
    by (rule arg_cong[where f = "map F"]) (rule et)
  also have "\<dots> = map G (rows dff)"
    by (simp add: row)
  finally have rws: "map F (exported_texts lib dff) = map G (rows dff)" .
  show ?thesis
    unfolding rd rws by (simp add: G_def)
qed

lemma reread_frame:
  assumes cols: "columns dff \<noteq> []"
    and names: "\<forall>c \<in> set (columns dff). CHR 0x0D \<notin> set c \<and> remove_bom c = c"
    and texts: "\<forall>r \<in> set (rows dff). \<forall>c \<in> set (columns dff).
                  CHR 0x0D \<notin> set (cell_text lib (cell_of r c))"
    and dec: "py_decode lib (to_csv lib dff) = to_csv lib dff"
    and tok: "pd_tokenize lib (to_csv lib dff) = tokenize_plain (to_csv lib dff)"
  shows "reingest lib (to_csv lib dff) =
           Inr \<lparr>columns = columns dff,
                rows = map (\<lambda>r. map (\<lambda>c. (c, reread_cell lib dff c r)) (columns dff)) (rows dff)\<rparr>"
proof -
  let ?h = "columns dff"
  define G where "G = (\<lambda>r. map (\<lambda>c. (c, reread_cell lib dff c r)) ?h)"
  have "CHR 0x0D \<notin> set (to_csv lib dff)"
    using names texts by (intro to_csv_no_cr) auto
  then have content: "replace_crlf (py_decode lib (to_csv lib dff)) = to_csv lib dff"
    by (simp add: dec replace_crlf_id)
  have "pd_tokenize lib (to_csv lib dff) = Inr (?h, exported_texts lib dff)"
    by (simp add: tok tokenize_plain_def csv_records_to_csv[OF cols])
  then have rd: "read_csv lib (to_csv lib dff) = Inr \<lparr>columns = ?h, rows = map G (rows dff)\<rparr>"
    unfolding G_def by (rule read_exported_texts)
  have keys: "map (\<lambda>(c, v). (remove_bom c, v)) (G r) = G r" for r
    using names by (simp add: G_def comp_def)
  have nm: "map remove_bom ?h = ?h"
    using names by (simp add: map_idI)
  show ?thesis
    unfolding reingest_def content rd
    by (simp add: bindE_def rename_columns_def nm keys) (simp add: G_def)
qed

text \<open>
  Claim C9, as amended. The export of a frame with a column reads, plainly, as a header
  record with the names of the columns and one record per row with exactly the texts of
  the cells of those columns: a header row, and no index column. Where no name and no
  cell text holds a carriage return or a byte order mark in a name, where decoding gives
  back the exported text and the tokenizer reads it plainly, re-ingestion returns a
  frame with the same columns and as many rows, in the same order, and every cell is
  what ingestion reads from the exported text of the original cell, given the texts of
  its column. So a missing cell is missing again; a text that is no marker of a missing
  value comes back as it was where the parser reads it as text in its column; an integer
  comes back as it was where the parser reads its text as that integer. Other values
  are not kept: a text that reads as a number comes back as a number, and a timestamp or
  a date comes back as the text it was printed as.
\<close>

theorem export_then_ingest:
  assumes "columns dff \<noteq> []"
    and "\<forall>c \<in> set (columns dff). CHR 0x0D \<notin> set c \<and> remove_bom c = c"
    and "\<forall>r \<in> set (rows dff). \<forall>c \<in> set (columns dff).
           CHR 0x0D \<notin> set (cell_text lib (cell_of r c))"
    and "py_decode lib (to_csv lib dff) = to_csv lib dff"
    and "pd_tokenize lib (to_csv lib dff) = tokenize_plain (to_csv lib dff)"
  shows "csv_records (to_csv lib dff) = columns dff # exported_texts lib dff \<and>
         (\<exists>df'. reingest lib (to_csv lib dff) = Inr df' \<and> columns df' = columns dff \<and>
            list_all2 (\<lambda>r r'. \<forall>c \<in> set (columns dff).
                cell_of r' c = reread_cell lib dff c r \<and>
                (cell_of r c = NaN \<longrightarrow> cell_of r' c = NaN) \<and>
                (\<forall>t. cell_of r c = Str t \<and> t \<notin> set na_values \<and>
                      pd_infer lib (column_texts lib dff c) t = Str t \<longrightarrow>
                      cell_of r' c = Str t) \<and>
                (\<forall>i. cell_of r c = IntV i \<and>
                      pd_infer lib (column_texts lib dff c) (str_int i) = IntV i \<longrightarrow>
                      cell_of r' c = IntV i))
              (rows dff) (rows df'))"
proof -
  have cell: "reread_cell lib dff c r = NaN" if "cell_of r c = NaN" for r c
    using that by (simp add: reread_cell_def cell_text_def read_field_def na_values_def)
  have str_kept: "reread_cell lib dff c r = Str t"
    if "cell_of r c = Str t" and "t \<notin> set na_values"
      and "pd_infer lib (column_texts lib dff c) t = Str t" for r c t
    using that by (simp add: reread_cell_def cell_text_def read_field_def)
  have int_kept: "reread_cell lib dff c r = IntV i"
    if "cell_of r c = IntV i"
      and "pd_infer lib (column_texts lib dff c) (str_int i) = IntV i" for r c i
    using that by (simp add: reread_cell_def cell_text_def read_field_def str_int_not_na)
  have "list_all2 (\<lambda>r r'. \<forall>c \<in> set (columns dff).
                cell_of r' c = reread_cell lib dff c r \<and>
                (cell_of r c = NaN \<longrightarrow> cell_of r' c = NaN) \<and>
                (\<forall>t. cell_of r c = Str t \<and> t \<notin> set na_values \<and>
                      pd_infer lib (column_texts lib dff c) t = Str t \<longrightarrow>
                      cell_of r' c = Str t) \<and>
                (\<forall>i. cell_of r c = IntV i \<and>
                      pd_infer lib (column_texts lib dff c) (str_int i) = IntV i \<longrightarrow>
                      cell_of r' c = IntV i))
          (rows dff) (map (\<lambda>r. map (\<lambda>c. (c, reread_cell lib dff c r)) (columns dff)) (rows dff))"
    by (simp add: list_all2_map2 list.rel_refl_strong cell_of_tabulated cell str_kept int_kept)
  then show ?thesis
    using reread_frame[OF assms] csv_records_to_csv[OF assms(1), of lib] by simp
qed

theorem export_then_ingest_witness:
  "columns ingested_sample \<noteq> [] \<and>
   list_all (\<lambda>c. CHR 0x0D \<notin> set c \<and> remove_bom c = c) (columns ingested_sample) \<and>
   list_all (\<lambda>r. list_all (\<lambda>c. CHR 0x0D \<notin> set (cell_text table_lib (cell_of r c)))
                    (columns ingested_sample)) (rows ingested_sample) \<and>
   py_decode table_lib (to_csv table_lib ingested_sample) = to_csv table_lib ingested_sample \<and>
   pd_tokenize table_lib (to_csv table_lib ingested_sample) =
     tokenize_plain (to_csv table_lib ingested_sample) \<and>
   csv_records (to_csv table_lib ingested_sample) =
     [[''Created At'', ''Year of Study'', ''College Name'', ''Registration Date'',
       ''Year of Study Cleaned''],
      [''2024-03-01 10:00:00+00:00'', ''2'', ''MIT'', ''2024-03-01'', ''2'']] \<and>
   (\<exists>df'. reingest table_lib (to_csv table_lib ingested_sample) = Inr df' \<and>
      columns df' = columns ingested_sample \<and>
      map (\<lambda>r. cell_of r ''College Name'') (rows df') = [Str ''MIT''] \<and>
      map (\<lambda>r. cell_of r ''Year of Study'') (rows df') = [IntV 2] \<and>
      map (\<lambda>r. cell_of r ''Year of Study Cleaned'') (rows df') = [IntV 2])"
proof -
  have a: "columns ingested_sample \<noteq> []"
    by (simp add: ingested_sample_def)
  have b: "\<forall>c \<in> set (columns ingested_sample). CHR 0x0D \<notin> set c \<and> remove_bom c = c"
    by (simp add: ingested_sample_def bom_def)
  have c: "\<forall>r \<in> set (rows ingested_sample). \<forall>c \<in> set (columns ingested_sample).
             CHR 0x0D \<notin> set (cell_text table_lib (cell_of r c))"
    by (simp add: ingested_sample_def cell_text_def cell_of_def table_lib_def str_int_digit)
  have "py_decode table_lib = (\<lambda>bytes. bytes)"
    by (simp add: table_lib_def)
  then have d: "py_decode table_lib (to_csv table_lib ingested_sample) =
                  to_csv table_lib ingested_sample"
    by simp
  have texts: "exported_texts table_lib ingested_sample =
                 [[''2024-03-01 10:00:00+00:00'', ''2'', ''MIT'', ''2024-03-01'', ''2'']]"
    by (simp add: exported_texts_def ingested_sample_def cell_text_def cell_of_def table_lib_def
        str_int_digit)
  have recs: "csv_records (to_csv table_lib ingested_sample) =
                columns ingested_sample # exported_texts table_lib ingested_sample"
    by (rule csv_records_to_csv[OF a])
  have "pd_tokenize table_lib exported_sample =
          Inr (columns ingested_sample, exported_texts table_lib ingested_sample)"
    unfolding texts
    by (simp add: table_lib_def exported_sample_def sample_csv_def header_only_csv_def
        ingested_sample_def)
  then have e: "pd_tokenize table_lib (to_csv table_lib ingested_sample) =
             tokenize_plain (to_csv table_lib ingested_sample)"
    by (simp add: export_sample[symmetric] tokenize_plain_def recs)
  from export_then_ingest[OF a b c d e] obtain df' where
    r: "reingest table_lib (to_csv table_lib ingested_sample) = Inr df'"
      "columns df' = columns ingested_sample"
    and k: "csv_records (to_csv table_lib ingested_sample) =
              columns ingested_sample # exported_texts table_lib ingested_sample"
    by blast
  from r have "df' = reread_sample" by (simp add: export_sample reread_sample)
  then have vals: "map (\<lambda>r. cell_of r ''College Name'') (rows df') = [Str ''MIT''] \<and>
      map (\<lambda>r. cell_of r ''Year of Study'') (rows df') = [IntV 2] \<and>
      map (\<lambda>r. cell_of r ''Year of Study Cleaned'') (rows df') = [IntV 2]"
    by (simp add: reread_sample_def cell_of_def)
  have k': "csv_records (to_csv table_lib ingested_sample) =
     [[''Created At'', ''Year of Study'', ''College Name'', ''Registration Date'',
       ''Year of Study Cleaned''],
      [''2024-03-01 10:00:00+00:00'', ''2'', ''MIT'', ''2024-03-01'', ''2'']]"
    unfolding k texts by (simp add: ingested_sample_def)
  have b': "list_all (\<lambda>c. CHR 0x0D \<notin> set c \<and> remove_bom c = c) (columns ingested_sample)"
    using b by (simp only: list_all_iff)
  have c': "list_all (\<lambda>r. list_all (\<lambda>c. CHR 0x0D \<notin> set (cell_text table_lib (cell_of r c)))
                    (columns ingested_sample)) (rows ingested_sample)"
    using c by (simp only: list_all_iff)
  have ex: "\<exists>df'. reingest table_lib (to_csv table_lib ingested_sample) = Inr df' \<and>
      columns df' = columns ingested_sample \<and>
      map (\<lambda>r. cell_of r ''College Name'') (rows df') = [Str ''MIT''] \<and>
      map (\<lambda>r. cell_of r ''Year of Study'') (rows df') = [IntV 2] \<and>
      map (\<lambda>r. cell_of r ''Year of Study Cleaned'') (rows df') = [IntV 2]"
    by (rule exI[of _ df']) (use r vals in simp)
  show ?thesis
    by (intro conjI) (rule a b' c' d e k' ex)+
qed

end
